theory Spec2Isabelle
  imports Complex_Main "HOL-Library.AList" "HOL-Library.FSet"
begin

section \<open>Python values, errors and dictionaries\<close>

text \<open>
  The client handles decoded JSON (\<open>res.json()\<close>), keyword dictionaries and
  \<open>datetime\<close> objects. A \<open>datetime\<close> built by \<open>strptime\<close> has no time zone; its
  attributes are modelled with a \<open>dt_\<close> prefix, since the record \<open>HouseEntry\<close> below
  has an attribute \<open>year\<close> of its own.
\<close>

record datetime =
  dt_year :: nat
  dt_month :: nat
  dt_day :: nat
  dt_hour :: nat
  dt_minute :: nat
  dt_second :: nat
  dt_microsecond :: nat

datatype pyval =
    PNone
  | PBool bool
  | PInt int
  | PFloat real
  | PStr string
  | PList "pyval list"
  | PDict "(string \<times> pyval) list"
  | PDatetime datetime

type_synonym pydict = "(string \<times> pyval) list"

text \<open>The exceptions the modelled code can raise; \<open>KeyError\<close> carries the missing key.\<close>

datatype error = TypeError | KeyError string | AttributeError | ValueError

text \<open>Python truthiness, as tested by \<open>if ts\<close> and \<open>if not value\<close>.\<close>

fun truthy :: "pyval \<Rightarrow> bool" where
  "truthy PNone = False"
| "truthy (PBool b) = b"
| "truthy (PInt n) = (n \<noteq> 0)"
| "truthy (PFloat x) = (x \<noteq> 0)"
| "truthy (PStr s) = (s \<noteq> [])"
| "truthy (PList xs) = (xs \<noteq> [])"
| "truthy (PDict d) = (d \<noteq> [])"
| "truthy (PDatetime t) = True"

text \<open>
  A \<open>dict\<close> keeps insertion order: \<open>d[k] = v\<close> overwrites in place or appends
  (\<open>AList.update\<close>), \<open>d.get(k, default)\<close> and \<open>d.pop(k, default)\<close> read by key.
\<close>

definition dict_get :: "pydict \<Rightarrow> string \<Rightarrow> pyval \<Rightarrow> pyval" where
  "dict_get d k dflt = (case map_of d k of None \<Rightarrow> dflt | Some v \<Rightarrow> v)"

definition dict_pop :: "pydict \<Rightarrow> string \<Rightarrow> pyval \<Rightarrow> pyval \<times> pydict" where
  "dict_pop d k dflt = (dict_get d k dflt, AList.delete k d)"

definition dict_update :: "pydict \<Rightarrow> pydict \<Rightarrow> pydict" where
  "dict_update d e = fold (\<lambda>(k, v). AList.update k v) e d"

section \<open>Timestamps: \<open>_convert_ts\<close> and \<open>HouseEntry.asdict\<close>\<close>

text \<open>
  Both directions use the format \<open>%Y-%m-%dT%H:%M:%SZ\<close>. \<open>datetime.strptime\<close> turns
  the format into a regular expression, matched case-insensitively from the start of
  the string, and rejects a string with unconverted data left over. The directives are
  \<^item> \<open>%Y\<close>: \<open>\<bsol>d\<bsol>d\<bsol>d\<bsol>d\<close>
  \<^item> \<open>%m\<close>: \<open>1[0-2]|0[1-9]|[1-9]\<close>
  \<^item> \<open>%d\<close>: \<open>3[0-1]|[1-2]\<bsol>d|0[1-9]|[1-9]| [1-9]\<close>
  \<^item> \<open>%H\<close>: \<open>2[0-3]|[0-1]\<bsol>d|\<bsol>d\<close>
  \<^item> \<open>%M\<close>: \<open>[0-5]\<bsol>d|\<bsol>d\<close>
  \<^item> \<open>%S\<close>: \<open>6[0-1]|[0-5]\<bsol>d|\<bsol>d\<close>

  None of these matches one of the literal separators, so each field is the text up to
  the next separator. Strings are byte strings here: digits are the ASCII digits.
\<close>

definition in_range :: "char \<Rightarrow> char \<Rightarrow> char \<Rightarrow> bool" where
  "in_range lo hi c \<longleftrightarrow> (of_char lo :: nat) \<le> of_char c \<and> (of_char c :: nat) \<le> of_char hi"

definition is_digit :: "char \<Rightarrow> bool" where
  "is_digit c = in_range (CHR ''0'') (CHR ''9'') c"

definition digit_val :: "char \<Rightarrow> nat" where
  "digit_val c = of_char c - 48"

definition digit_char :: "nat \<Rightarrow> char" where
  "digit_char d = char_of (48 + d)"

definition digits_val :: "string \<Rightarrow> nat" where
  "digits_val s = foldl (\<lambda>a c. 10 * a + digit_val c) 0 s"

text \<open>\<open>int(text)\<close> on a matched field; only \<open>%d\<close> can match a leading blank.\<close>

definition py_int :: "string \<Rightarrow> nat" where
  "py_int s = digits_val (dropWhile (\<lambda>c. c = CHR '' '') s)"

definition pat_Y :: "string \<Rightarrow> bool" where
  "pat_Y a \<longleftrightarrow> length a = 4 \<and> list_all is_digit a"

fun pat_m :: "string \<Rightarrow> bool" where
  "pat_m [c1, c2] \<longleftrightarrow>
     (c1 = CHR ''1'' \<and> in_range (CHR ''0'') (CHR ''2'') c2)
   \<or> (c1 = CHR ''0'' \<and> in_range (CHR ''1'') (CHR ''9'') c2)"
| "pat_m [c] \<longleftrightarrow> in_range (CHR ''1'') (CHR ''9'') c"
| "pat_m _ \<longleftrightarrow> False"

fun pat_d :: "string \<Rightarrow> bool" where
  "pat_d [c1, c2] \<longleftrightarrow>
     (c1 = CHR ''3'' \<and> in_range (CHR ''0'') (CHR ''1'') c2)
   \<or> (in_range (CHR ''1'') (CHR ''2'') c1 \<and> is_digit c2)
   \<or> (c1 = CHR ''0'' \<and> in_range (CHR ''1'') (CHR ''9'') c2)
   \<or> (c1 = CHR '' '' \<and> in_range (CHR ''1'') (CHR ''9'') c2)"
| "pat_d [c] \<longleftrightarrow> in_range (CHR ''1'') (CHR ''9'') c"
| "pat_d _ \<longleftrightarrow> False"

fun pat_H :: "string \<Rightarrow> bool" where
  "pat_H [c1, c2] \<longleftrightarrow>
     (c1 = CHR ''2'' \<and> in_range (CHR ''0'') (CHR ''3'') c2)
   \<or> (in_range (CHR ''0'') (CHR ''1'') c1 \<and> is_digit c2)"
| "pat_H [c] \<longleftrightarrow> is_digit c"
| "pat_H _ \<longleftrightarrow> False"

fun pat_M :: "string \<Rightarrow> bool" where
  "pat_M [c1, c2] \<longleftrightarrow> in_range (CHR ''0'') (CHR ''5'') c1 \<and> is_digit c2"
| "pat_M [c] \<longleftrightarrow> is_digit c"
| "pat_M _ \<longleftrightarrow> False"

fun pat_S :: "string \<Rightarrow> bool" where
  "pat_S [c1, c2] \<longleftrightarrow>
     (c1 = CHR ''6'' \<and> in_range (CHR ''0'') (CHR ''1'') c2)
   \<or> (in_range (CHR ''0'') (CHR ''5'') c1 \<and> is_digit c2)"
| "pat_S [c] \<longleftrightarrow> is_digit c"
| "pat_S _ \<longleftrightarrow> False"

text \<open>The text before the first separator, and the text after it.\<close>

fun split_at :: "(char \<Rightarrow> bool) \<Rightarrow> string \<Rightarrow> (string \<times> string) option" where
  "split_at sep [] = None"
| "split_at sep (c # cs) =
     (if sep c then Some ([], cs)
      else case split_at sep cs of None \<Rightarrow> None | Some (a, r) \<Rightarrow> Some (c # a, r))"

definition field :: "(string \<Rightarrow> bool) \<Rightarrow> (char \<Rightarrow> bool) \<Rightarrow> string \<Rightarrow> (nat \<times> string) option" where
  "field pat sep s =
     (case split_at sep s of
        None \<Rightarrow> None
      | Some (a, r) \<Rightarrow> if pat a then Some (py_int a, r) else None)"

definition lit :: "char \<Rightarrow> char \<Rightarrow> bool" where
  "lit l c \<longleftrightarrow> c = l"

text \<open>A letter of the format matches either case (\<open>IGNORECASE\<close>).\<close>

definition lit_T :: "char \<Rightarrow> bool" where
  "lit_T c \<longleftrightarrow> c = CHR ''T'' \<or> c = CHR ''t''"

definition lit_Z :: "char \<Rightarrow> bool" where
  "lit_Z c \<longleftrightarrow> c = CHR ''Z'' \<or> c = CHR ''z''"

definition strptime_match :: "string \<Rightarrow> (nat \<times> nat \<times> nat \<times> nat \<times> nat \<times> nat) option" where
  "strptime_match s =
     (case field pat_Y (lit (CHR ''-'')) s of None \<Rightarrow> None | Some (Y, s1) \<Rightarrow>
      case field pat_m (lit (CHR ''-'')) s1 of None \<Rightarrow> None | Some (m, s2) \<Rightarrow>
      case field pat_d lit_T s2 of None \<Rightarrow> None | Some (d, s3) \<Rightarrow>
      case field pat_H (lit (CHR '':'')) s3 of None \<Rightarrow> None | Some (H, s4) \<Rightarrow>
      case field pat_M (lit (CHR '':'')) s4 of None \<Rightarrow> None | Some (M, s5) \<Rightarrow>
      case field pat_S lit_Z s5 of None \<Rightarrow> None | Some (S, s6) \<Rightarrow>
      if s6 = [] then Some (Y, m, d, H, M, S) else None)"

definition is_leap :: "nat \<Rightarrow> bool" where
  "is_leap y \<longleftrightarrow> y mod 4 = 0 \<and> (y mod 100 \<noteq> 0 \<or> y mod 400 = 0)"

definition days_in_month :: "nat \<Rightarrow> nat \<Rightarrow> nat" where
  "days_in_month y m =
     (if m = 2 then (if is_leap y then 29 else 28)
      else if m \<in> {4, 6, 9, 11} then 30 else 31)"

text \<open>The range checks of the \<open>datetime\<close> constructor (\<open>MINYEAR = 1\<close>, \<open>MAXYEAR = 9999\<close>).\<close>

definition valid_datetime :: "datetime \<Rightarrow> bool" where
  "valid_datetime t \<longleftrightarrow>
     1 \<le> dt_year t \<and> dt_year t \<le> 9999 \<and> 1 \<le> dt_month t \<and> dt_month t \<le> 12
   \<and> 1 \<le> dt_day t \<and> dt_day t \<le> days_in_month (dt_year t) (dt_month t)
   \<and> dt_hour t \<le> 23 \<and> dt_minute t \<le> 59 \<and> dt_second t \<le> 59
   \<and> dt_microsecond t \<le> 999999"

definition strptime :: "string \<Rightarrow> error + datetime" where
  "strptime s =
     (case strptime_match s of
        None \<Rightarrow> Inl ValueError
      | Some (Y, m, d, H, M, S) \<Rightarrow>
          (let t = \<lparr>dt_year = Y, dt_month = m, dt_day = d, dt_hour = H, dt_minute = M,
                    dt_second = S, dt_microsecond = 0\<rparr>
           in if valid_datetime t then Inr t else Inl ValueError))"

text \<open>
  \<open>_convert_ts\<close>: a falsy argument gives \<open>None\<close>; \<open>strptime\<close> raises \<open>TypeError\<close> for
  a truthy argument that is not a string.
\<close>

definition convert_ts :: "pyval \<Rightarrow> error + pyval" where
  "convert_ts ts =
     (if truthy ts then
        (case ts of
           PStr s \<Rightarrow> (case strptime s of Inl e \<Rightarrow> Inl e | Inr t \<Rightarrow> Inr (PDatetime t))
         | _ \<Rightarrow> Inl TypeError)
      else Inr PNone)"

text \<open>
  \<open>strftime\<close> with the same format writes every field but the year in two digits,
  zero-padded. The year is written by the C library's \<open>%Y\<close>: glibc writes it without
  padding (the year 99 as \<open>99\<close>), other libraries write four digits. The argument
  \<open>padded\<close> says which of the two the platform does. \<open>pad_nat w n\<close> is the last \<open>w\<close>
  decimal digits of \<open>n\<close>, \<open>show_nat n\<close> the decimal digits of \<open>n\<close> without padding.
\<close>

fun pad_nat :: "nat \<Rightarrow> nat \<Rightarrow> string" where
  "pad_nat 0 n = []"
| "pad_nat (Suc w) n = pad_nat w (n div 10) @ [digit_char (n mod 10)]"

fun show_nat :: "nat \<Rightarrow> string" where
  "show_nat n =
     (if n < 10 then [digit_char n] else show_nat (n div 10) @ [digit_char (n mod 10)])"

definition format_year :: "bool \<Rightarrow> nat \<Rightarrow> string" where
  "format_year padded y = (if padded then pad_nat 4 y else show_nat y)"

definition strftime :: "bool \<Rightarrow> datetime \<Rightarrow> string" where
  "strftime padded t =
     format_year padded (dt_year t) @ ''-'' @ pad_nat 2 (dt_month t) @ ''-''
     @ pad_nat 2 (dt_day t) @ ''T'' @ pad_nat 2 (dt_hour t) @ '':''
     @ pad_nat 2 (dt_minute t) @ '':'' @ pad_nat 2 (dt_second t) @ ''Z''"

text \<open>
  The fixed provider format \<open>YYYY-MM-DDTHH:MM:SSZ\<close>: in the template, \<open>d\<close> stands for
  a digit and every other character for itself.
\<close>

definition fixed_format :: "string \<Rightarrow> bool" where
  "fixed_format s =
     list_all2 (\<lambda>f c. if f = CHR ''d'' then is_digit c else c = f) ''dddd-dd-ddTdd:dd:ddZ'' s"


section \<open>The canonical record: \<open>HouseEntry\<close>\<close>

text \<open>
  The dataclass annotates its attributes but checks no types, so every attribute holds
  an arbitrary value. The attributes \<open>id\<close> and \<open>size\<close> are written \<open>id'\<close> and \<open>size'\<close>.
\<close>

record HouseEntry =
  id' :: pyval
  url :: pyval
  description :: pyval
  rooms :: pyval
  room_configuration :: pyval
  price :: pyval
  published :: pyval
  size' :: pyval
  address :: pyval
  district :: pyval
  city :: pyval
  country :: pyval
  year :: pyval
  building_type :: pyval
  longitude :: pyval
  latitude :: pyval
  brand_name :: pyval
  price_changed :: pyval
  visits :: pyval
  visits_weekly :: pyval

text \<open>\<open>HouseEntry.__dataclass_fields__\<close>, in declaration order.\<close>

definition dataclass_fields :: "string list" where
  "dataclass_fields =
     [''id'', ''url'', ''description'', ''rooms'', ''room_configuration'', ''price'',
      ''published'', ''size'', ''address'', ''district'', ''city'', ''country'', ''year'',
      ''building_type'', ''longitude'', ''latitude'', ''brand_name'', ''price_changed'',
      ''visits'', ''visits_weekly'']"

text \<open>
  \<open>HouseEntry(**data)\<close>: the generated \<open>__init__\<close> has one required parameter per
  field and no defaults. A keyword that is no field, or a field without a keyword,
  raises \<open>TypeError\<close>. (Past the check every field is present, the default of
  \<open>dict_get\<close> is never used.)
\<close>

definition HouseEntry_init :: "pydict \<Rightarrow> error + HouseEntry" where
  "HouseEntry_init data =
     (if list_all (\<lambda>k. k \<in> set dataclass_fields) (map fst data)
         \<and> list_all (\<lambda>k. k \<in> set (map fst data)) dataclass_fields
      then Inr \<lparr>id' = dict_get data ''id'' PNone,
                url = dict_get data ''url'' PNone,
                description = dict_get data ''description'' PNone,
                rooms = dict_get data ''rooms'' PNone,
                room_configuration = dict_get data ''room_configuration'' PNone,
                price = dict_get data ''price'' PNone,
                published = dict_get data ''published'' PNone,
                size' = dict_get data ''size'' PNone,
                address = dict_get data ''address'' PNone,
                district = dict_get data ''district'' PNone,
                city = dict_get data ''city'' PNone,
                country = dict_get data ''country'' PNone,
                year = dict_get data ''year'' PNone,
                building_type = dict_get data ''building_type'' PNone,
                longitude = dict_get data ''longitude'' PNone,
                latitude = dict_get data ''latitude'' PNone,
                brand_name = dict_get data ''brand_name'' PNone,
                price_changed = dict_get data ''price_changed'' PNone,
                visits = dict_get data ''visits'' PNone,
                visits_weekly = dict_get data ''visits_weekly'' PNone\<rparr>
      else Inl TypeError)"

text \<open>\<open>dataclasses.asdict\<close>: the attributes by name, in field order.\<close>

definition dataclass_asdict :: "HouseEntry \<Rightarrow> pydict" where
  "dataclass_asdict h =
     [(''id'', id' h), (''url'', url h), (''description'', description h),
      (''rooms'', rooms h), (''room_configuration'', room_configuration h),
      (''price'', price h), (''published'', published h), (''size'', size' h),
      (''address'', address h), (''district'', district h), (''city'', city h),
      (''country'', country h), (''year'', year h), (''building_type'', building_type h),
      (''longitude'', longitude h), (''latitude'', latitude h),
      (''brand_name'', brand_name h), (''price_changed'', price_changed h),
      (''visits'', visits h), (''visits_weekly'', visits_weekly h)]"

text \<open>
  The loop body of \<open>HouseEntry.asdict\<close>: a \<open>datetime\<close> value is formatted (\<open>padded\<close>
  as for \<open>strftime\<close>).
\<close>

definition asdict_value :: "bool \<Rightarrow> pyval \<Rightarrow> pyval" where
  "asdict_value padded v = (case v of PDatetime t \<Rightarrow> PStr (strftime padded t) | _ \<Rightarrow> v)"

definition asdict :: "bool \<Rightarrow> HouseEntry \<Rightarrow> pydict" where
  "asdict padded h = map (\<lambda>(k, v). (k, asdict_value padded v)) (dataclass_asdict h)"

section \<open>The entry normalizer: \<open>_entry_builder\<close>\<close>

text \<open>
  \<open>dict.update(other)\<close> with an \<open>other\<close> that is no dictionary (line 187 passes
  whatever \<open>buildingData\<close> holds). \<open>other\<close> is iterated; every element is turned into a
  sequence, which must have length 2, and gives a key and a value: a list gives its two
  elements, a string of two characters gives the two characters, a dictionary with two
  keys gives the two keys. An element that is no sequence raises \<open>TypeError\<close>, a
  sequence of another length raises \<open>ValueError\<close>.
\<close>

fun pair_of :: "pyval \<Rightarrow> error + pyval \<times> pyval" where
  "pair_of (PList [k, v]) = Inr (k, v)"
| "pair_of (PList xs) = Inl ValueError"
| "pair_of (PStr [a, b]) = Inr (PStr [a], PStr [b])"
| "pair_of (PStr s) = Inl ValueError"
| "pair_of (PDict [(k1, v1), (k2, v2)]) = Inr (PStr k1, PStr k2)"
| "pair_of (PDict d) = Inl ValueError"
| "pair_of v = Inl TypeError"

text \<open>
  The pairs are stored in order. A list or a dictionary as key is not hashable and
  raises \<open>TypeError\<close>. A key that is hashable but no string (a number, \<open>None\<close>) is
  stored by the code; it takes no part in what lines 189 to 199 read or write, and
  makes \<open>HouseEntry(**data)\<close> raise \<open>TypeError\<close> on line 201. The dictionary of the
  model holds the string keys; \<open>nonstring_key\<close> tells the other ones.
\<close>

fun update_pairs :: "pyval list \<Rightarrow> pydict \<Rightarrow> error + pydict" where
  "update_pairs [] data = Inr data"
| "update_pairs (x # xs) data =
     (case pair_of x of
        Inl e \<Rightarrow> Inl e
      | Inr (k, v) \<Rightarrow>
          (case k of
             PStr key \<Rightarrow> update_pairs xs (AList.update key v data)
           | PList ys \<Rightarrow> Inl TypeError
           | PDict d \<Rightarrow> Inl TypeError
           | _ \<Rightarrow> update_pairs xs data))"

fun nonstring_key :: "pyval \<Rightarrow> bool" where
  "nonstring_key (PList [PStr key, v]) = False"
| "nonstring_key (PList [k, v]) = True"
| "nonstring_key v = False"

text \<open>
  Lines 186 and 187: the top-level items whose key is a field name, then
  \<open>data.update(entry.get('buildingData', {}))\<close>. A dictionary is merged key by key; a
  list or a string is iterated as above (the elements of a string are its
  characters); any other value is not iterable and raises \<open>TypeError\<close>.
\<close>

definition flat_copy :: "pydict \<Rightarrow> error + pydict" where
  "flat_copy entry =
     (let data = filter (\<lambda>(k, v). k \<in> set dataclass_fields) entry
      in case dict_get entry ''buildingData'' (PDict []) of
           PDict b \<Rightarrow> Inr (dict_update data b)
         | PList xs \<Rightarrow> update_pairs xs data
         | PStr s \<Rightarrow> update_pairs (map (\<lambda>c. PStr [c]) s) data
         | _ \<Rightarrow> Inl TypeError)"

text \<open>Whether line 187 stored a key that is no string.\<close>

definition nonstring_keys :: "pydict \<Rightarrow> bool" where
  "nonstring_keys entry =
     (case dict_get entry ''buildingData'' (PDict []) of
        PList xs \<Rightarrow> list_ex nonstring_key xs
      | _ \<Rightarrow> False)"

text \<open>
  Lines 189 to 199, on the dictionary \<open>data\<close> of line 187. \<open>.replace\<close> on a value
  that is no string raises \<open>AttributeError\<close>; subscripting a \<open>brand\<close> that is no
  object raises \<open>TypeError\<close>, a \<open>brand\<close> object without \<open>name\<close> raises \<open>KeyError\<close>;
  \<open>.get\<close> on \<open>coordinates\<close> that is no object raises \<open>AttributeError\<close>.
\<close>

definition entry_fields :: "pydict \<Rightarrow> pydict \<Rightarrow> error + pydict" where
  "entry_fields entry data0 =
     (case dict_pop data0 ''description'' (PStr []) of
        (PStr s, data1) \<Rightarrow>
          (let data2 = AList.update ''description'' (PStr (filter (\<lambda>c. c \<noteq> CHR 0x0A) s)) data1;
               (bt, data3) = dict_pop data2 ''buildingType'' PNone;
               data4 = AList.update ''building_type'' bt data3;
               data5 = AList.update ''room_configuration''
                         (dict_get entry ''roomConfiguration'' PNone) data4
           in case dict_get entry ''brand'' (PDict [(''name'', PNone)]) of
                PDict brand \<Rightarrow>
                  (case map_of brand ''name'' of
                     None \<Rightarrow> Inl (KeyError ''name'')
                   | Some nm \<Rightarrow>
                       (let data6 = AList.update ''brand_name'' nm data5
                        in case dict_get entry ''coordinates'' (PDict []) of
                             PDict coordinates \<Rightarrow>
                               (let data7 = AList.update ''longitude''
                                              (dict_get coordinates ''longitude'' PNone) data6;
                                    data8 = AList.update ''latitude''
                                              (dict_get coordinates ''latitude'' PNone) data7
                                in case convert_ts (dict_get entry ''priceChanged'' PNone) of
                                     Inl e \<Rightarrow> Inl e
                                   | Inr pc \<Rightarrow>
                                       (case convert_ts (dict_get entry ''published'' PNone) of
                                          Inl e \<Rightarrow> Inl e
                                        | Inr pb \<Rightarrow>
                                            Inr (AList.update ''published'' pb
                                                  (AList.update ''price_changed'' pc data8))))
                           | _ \<Rightarrow> Inl AttributeError))
              | _ \<Rightarrow> Inl TypeError)
      | _ \<Rightarrow> Inl AttributeError)"

text \<open>The keyword dictionary handed to \<open>HouseEntry\<close> on line 201 (its string keys).\<close>

definition entry_data :: "pydict \<Rightarrow> error + pydict" where
  "entry_data entry =
     (case flat_copy entry of Inl e \<Rightarrow> Inl e | Inr data0 \<Rightarrow> entry_fields entry data0)"

text \<open>Line 201: a keyword that is no string raises \<open>TypeError\<close>.\<close>

definition entry_builder :: "pydict \<Rightarrow> error + HouseEntry" where
  "entry_builder entry =
     (case entry_data entry of
        Inl e \<Rightarrow> Inl e
      | Inr data \<Rightarrow> if nonstring_keys entry then Inl TypeError else HouseEntry_init data)"


text \<open>
  The attributes that lines 189 to 199 do not assign: \<open>_entry_builder\<close> hands them to
  the record as line 187 left them.
\<close>

definition copied_fields :: "string list" where
  "copied_fields =
     [''id'', ''url'', ''rooms'', ''price'', ''size'', ''address'', ''district'', ''city'',
      ''country'', ''year'', ''visits'', ''visits_weekly'']"

section \<open>The provider and the requests sent to it\<close>

text \<open>
  The session's \<open>get\<close> is modelled by the provider's answer to each request and a log
  of the requests issued. The answers have the shape the provider documents: the
  location search returns cards with an integer \<open>cardId\<close> and \<open>cardType\<close>, the listings
  endpoint returns \<open>cards\<close> (a list of raw entries) and \<open>found\<close> (an integer).
\<close>

record loc_card =
  cardId :: int
  cardType :: int

record page =
  cards :: "pydict list"
  found :: int

record provider =
  location_api :: "string \<Rightarrow> loc_card list"
  cards_api :: "string \<Rightarrow> page"

datatype request = LocationGet string | CardsGet string

definition BASE :: string where
  "BASE = ''https://asunnot.oikotie.fi''"

section \<open>Printing integers\<close>

text \<open>\<open>str\<close> of an \<open>int\<close>, as used by \<open>str([...])\<close> and by the f-strings.\<close>

definition show_int :: "int \<Rightarrow> string" where
  "show_int i = (if i < 0 then CHR ''-'' # show_nat (nat (- i)) else show_nat (nat i))"

section \<open>The location resolver: \<open>location\<close>\<close>

text \<open>
  \<open>str([data[k] for k in keys])\<close> is \<open>[a, b]\<close>; without blanks and without its last
  character it is \<open>[a,b\<close>, to which the quoted name (blanks replaced by \<open>+\<close>) and the
  closing bracket are added. \<open>CHR 0x22\<close> is the double quote.
\<close>

definition location_info :: "string \<Rightarrow> loc_card \<Rightarrow> string" where
  "location_info loc data =
     butlast (filter (\<lambda>c. c \<noteq> CHR '' '')
                (''['' @ show_int (cardId data) @ '', '' @ show_int (cardType data) @ '']''))
     @ '','' @ [CHR 0x22] @ map (\<lambda>c. if c = CHR '' '' then CHR ''+'' else c) loc
     @ [CHR 0x22] @ '']''"

text \<open>The inner loop over the entries of one response, and the outer loop over the names.\<close>

fun location_entries :: "string \<Rightarrow> loc_card list \<Rightarrow> string \<Rightarrow> string" where
  "location_entries loc [] results = results"
| "location_entries loc (data # rest) results =
     location_entries loc rest (results @ location_info loc data @ '','')"

fun location_loop :: "provider \<Rightarrow> string list \<Rightarrow> string \<Rightarrow> request list \<Rightarrow> string \<times> request list" where
  "location_loop srv [] results reqs = (results, reqs)"
| "location_loop srv (loc # locs) results reqs =
     location_loop srv locs (location_entries loc (location_api srv loc) results)
       (reqs @ [LocationGet loc])"

definition location :: "provider \<Rightarrow> string list \<Rightarrow> request list \<Rightarrow> string \<times> request list" where
  "location srv locations reqs =
     (case location_loop srv locations ''['' reqs of
        (results, reqs') \<Rightarrow> (butlast results @ '']'', reqs'))"

section \<open>The filter encoder: \<open>_params_builder\<close>\<close>

text \<open>
  The arguments of \<open>query\<close>. A list argument left out is \<open>None\<close>, as is a bound left
  out; \<open>limit\<close> is an integer.
\<close>

record query_args =
  locations :: "string list option"
  house_type :: "string list option"
  room_count :: "int list option"
  price_min :: "int option"
  price_max :: "int option"
  size_min :: "int option"
  size_max :: "int option"
  limit :: int

text \<open>The values the keyword dictionary holds when the loop of line 172 runs.\<close>

datatype kwarg = KNone | KInt int | KStr string | KInts "int list"

definition param_map :: "string \<rightharpoonup> string" where
  "param_map = map_of
     [(''house_type'', ''buildingType[]''), (''room_count'', ''roomCount[]''),
      (''price_min'', ''price[min]''), (''price_max'', ''price[max]''),
      (''size_min'', ''size[min]''), (''size_max'', ''size[max]'')]"

definition house_types :: "string \<rightharpoonup> int list" where
  "house_types = map_of
     [(''kerrostalo'', [1, 256]), (''rivitalo'', [2]), (''paritalo'', [64]),
      (''omakotitalo'', [4, 8, 32, 128])]"

text \<open>
  Line 168: \<open>list(chain(*[house_types[k] for k in ...]))\<close>. The comprehension looks the
  names up in order; the first unknown name raises \<open>KeyError\<close>.
\<close>

fun expand_house_types :: "string list \<Rightarrow> error + int list" where
  "expand_house_types [] = Inr []"
| "expand_house_types (k # ks) =
     (case house_types k of
        None \<Rightarrow> Inl (KeyError k)
      | Some codes \<Rightarrow>
          (case expand_house_types ks of Inl e \<Rightarrow> Inl e | Inr r \<Rightarrow> Inr (codes @ r)))"

text \<open>
  One round of the loop of line 172, as the key/value pairs it adds to the string: a
  falsy value adds nothing, a list adds one pair per element.
\<close>

fun emit :: "string \<times> kwarg \<Rightarrow> (string \<times> string) list" where
  "emit (key, KNone) = []"
| "emit (key, KInt n) =
     (if n = 0 then [] else [(case param_map key of None \<Rightarrow> key | Some k \<Rightarrow> k, show_int n)])"
| "emit (key, KStr s) =
     (if s = [] then [] else [(case param_map key of None \<Rightarrow> key | Some k \<Rightarrow> k, s)])"
| "emit (key, KInts vs) =
     map (\<lambda>v. (case param_map key of None \<Rightarrow> key | Some k \<Rightarrow> k, show_int v)) vs"

definition opt_int :: "int option \<Rightarrow> kwarg" where
  "opt_int x = (case x of None \<Rightarrow> KNone | Some n \<Rightarrow> KInt n)"

definition opt_ints :: "int list option \<Rightarrow> kwarg" where
  "opt_ints x = (case x of None \<Rightarrow> KNone | Some ns \<Rightarrow> KInts ns)"

text \<open>
  The keyword dictionary after lines 168 and 169, in insertion order: the arguments of
  \<open>query\<close> in the order of its signature (\<open>locals()\<close>), then the keys added by
  \<open>params.update\<close> (\<open>limit\<close> keeps its place). \<open>offset\<close> is the value \<open>query\<close> holds in
  \<open>params['offset']\<close> when it calls \<open>_execute\<close>.
\<close>

definition kwargs :: "query_args \<Rightarrow> int \<Rightarrow> string \<Rightarrow> int list \<Rightarrow> (string \<times> kwarg) list" where
  "kwargs a offset token codes =
     [(''locations'', KStr token), (''house_type'', KInts codes),
      (''room_count'', opt_ints (room_count a)),
      (''price_min'', opt_int (price_min a)), (''price_max'', opt_int (price_max a)),
      (''size_min'', opt_int (size_min a)), (''size_max'', opt_int (size_max a)),
      (''limit'', KInt (limit a)), (''cardType'', KInt 101), (''offset'', KInt offset),
      (''sortBy'', KStr ''published_sort_desc'')]"

definition param_pairs :: "(string \<times> kwarg) list \<Rightarrow> (string \<times> string) list" where
  "param_pairs items = concat (map emit items)"

definition render :: "(string \<times> string) list \<Rightarrow> string" where
  "render pairs = butlast (''?'' @ concat (map (\<lambda>(k, v). k @ ''='' @ v @ ''&'') pairs))"

text \<open>
  \<open>_params_builder\<close>: iterating \<open>None\<close> on line 168, or unpacking it on line 169,
  raises \<open>TypeError\<close>. The house types are expanded before the locations are looked up.
\<close>

definition params_builder ::
  "provider \<Rightarrow> query_args \<Rightarrow> int \<Rightarrow> request list \<Rightarrow> (error + string) \<times> request list" where
  "params_builder srv a offset reqs =
     (case house_type a of
        None \<Rightarrow> (Inl TypeError, reqs)
      | Some hts \<Rightarrow>
          (case expand_house_types hts of
             Inl e \<Rightarrow> (Inl e, reqs)
           | Inr codes \<Rightarrow>
               (case locations a of
                  None \<Rightarrow> (Inl TypeError, reqs)
                | Some locs \<Rightarrow>
                    (case location srv locs reqs of
                       (token, reqs') \<Rightarrow>
                         (Inr (render (param_pairs (kwargs a offset token codes))), reqs')))))"

section \<open>The pagination engine: \<open>query\<close>\<close>

definition execute ::
  "provider \<Rightarrow> query_args \<Rightarrow> int \<Rightarrow> request list \<Rightarrow> (error + page) \<times> request list" where
  "execute srv a offset reqs =
     (case params_builder srv a offset reqs of
        (Inl e, reqs') \<Rightarrow> (Inl e, reqs')
      | (Inr ps, reqs') \<Rightarrow>
          (let url = BASE @ ''/api/cards'' @ ps
           in (Inr (cards_api srv url), reqs' @ [CardsGet url])))"

text \<open>
  \<open>for entry in data['cards']: yield self._entry_builder(entry)\<close>: the records yielded,
  and the error that ended the loop, if any.
\<close>

fun yield_entries :: "pydict list \<Rightarrow> HouseEntry list \<times> error option" where
  "yield_entries [] = ([], None)"
| "yield_entries (entry # rest) =
     (case entry_builder entry of
        Inl e \<Rightarrow> ([], Some e)
      | Inr h \<Rightarrow> (case yield_entries rest of (hs, r) \<Rightarrow> (h # hs, r)))"

text \<open>\<open>range(start, stop, step)\<close> as a list; a zero step raises \<open>ValueError\<close>.\<close>

definition py_range :: "int \<Rightarrow> int \<Rightarrow> int \<Rightarrow> error + int list" where
  "py_range start stop step =
     (if step = 0 then Inl ValueError
      else if 0 < step then
        Inr (map (\<lambda>k. start + int k * step) [0..<nat ((stop - start + step - 1) div step)])
      else
        Inr (map (\<lambda>k. start + int k * step) [0..<nat ((start - stop - step - 1) div (- step))]))"

text \<open>The loop of line 80 over the remaining offsets.\<close>

fun fetch_pages ::
  "provider \<Rightarrow> query_args \<Rightarrow> int list \<Rightarrow> request list
     \<Rightarrow> HouseEntry list \<times> error option \<times> request list" where
  "fetch_pages srv a [] reqs = ([], None, reqs)"
| "fetch_pages srv a (i # offsets) reqs =
     (case execute srv a i reqs of
        (Inl e, reqs') \<Rightarrow> ([], Some e, reqs')
      | (Inr data, reqs') \<Rightarrow>
          (case yield_entries (cards data) of
             (ys, Some e) \<Rightarrow> (ys, Some e, reqs')
           | (ys, None) \<Rightarrow>
               (case fetch_pages srv a offsets reqs' of
                  (zs, r, reqs'') \<Rightarrow> (ys @ zs, r, reqs''))))"

text \<open>
  \<open>query\<close>, iterated to its end: the records yielded, the exception that ended the
  iteration (if any), and the log of requests.
\<close>

definition query ::
  "provider \<Rightarrow> query_args \<Rightarrow> request list \<Rightarrow> HouseEntry list \<times> error option \<times> request list" where
  "query srv a reqs =
     (case execute srv a 0 reqs of
        (Inl e, reqs') \<Rightarrow> ([], Some e, reqs')
      | (Inr data, reqs') \<Rightarrow>
          (case yield_entries (cards data) of
             (ys, Some e) \<Rightarrow> (ys, Some e, reqs')
           | (ys, None) \<Rightarrow>
               (let n_found = found data
                in if n_found > limit a then
                     (case py_range (limit a) n_found (limit a) of
                        Inl e \<Rightarrow> (ys, Some e, reqs')
                      | Inr offsets \<Rightarrow>
                          (case fetch_pages srv a offsets reqs' of
                             (zs, r, reqs'') \<Rightarrow> (ys @ zs, r, reqs'')))
                   else (ys, None, reqs'))))"

text \<open>The URLs of the listing requests in a log.\<close>

fun page_requests :: "request list \<Rightarrow> string list" where
  "page_requests [] = []"
| "page_requests (LocationGet loc # rs) = page_requests rs"
| "page_requests (CardsGet u # rs) = u # page_requests rs"

text \<open>
  The URL \<open>_execute\<close> requests when \<open>params['offset']\<close> holds \<open>offset\<close> (empty when
  the parameters cannot be built).
\<close>

definition page_url :: "provider \<Rightarrow> query_args \<Rightarrow> int \<Rightarrow> string" where
  "page_url srv a offset =
     (case params_builder srv a offset [] of
        (Inl e, _) \<Rightarrow> []
      | (Inr ps, _) \<Rightarrow> BASE @ ''/api/cards'' @ ps)"

text \<open>
  The offsets \<open>query\<close> requests, given the limit and the \<open>found\<close> of the first page:
  0, then the \<open>range\<close> of line 80 when line 79 lets it run.
\<close>

definition page_offsets :: "int \<Rightarrow> int \<Rightarrow> int list" where
  "page_offsets page_size n_found =
     0 # (if n_found > page_size then
            (case py_range page_size n_found page_size of Inl e \<Rightarrow> [] | Inr offsets \<Rightarrow> offsets)
          else [])"

section \<open>The sheet wrapper\<close>

text \<open>
  The worksheet is its list of rows. \<open>insert_row(values, index)\<close> puts the row at the
  1-based \<open>index\<close>, moving the rows from there on down (blank rows fill a gap).
  What \<open>insert\<close> prints is kept as a list of events.
\<close>

type_synonym row = "pyval list"

datatype event = FoundNew HouseEntry | AlreadyExists pyval

record SheetWrapper =
  sheet :: "row list"
  ids :: "pyval fset"
  printed :: "event list"

definition insert_row :: "row \<Rightarrow> nat \<Rightarrow> row list \<Rightarrow> row list" where
  "insert_row values index rows =
     (let padded = rows @ replicate (index - 1 - length rows) []
      in take (index - 1) padded @ [values] @ drop (index - 1) padded)"

text \<open>
  A \<open>set\<close> holds its elements up to Python's equality, under which a number is the
  same as a \<open>bool\<close>, an \<open>int\<close> or a \<open>float\<close> (\<open>True == 1 == 1.0\<close>). \<open>py_key\<close>
  gives every hashable value one representative of its class; the id set of the model
  holds representatives. A list or a dictionary is not hashable.
\<close>

fun hashable :: "pyval \<Rightarrow> bool" where
  "hashable (PList xs) = False"
| "hashable (PDict d) = False"
| "hashable v = True"

fun py_key :: "pyval \<Rightarrow> pyval" where
  "py_key (PBool b) = PInt (if b then 1 else 0)"
| "py_key (PFloat x) = (if of_int \<lfloor>x\<rfloor> = x then PInt \<lfloor>x\<rfloor> else PFloat x)"
| "py_key v = v"

text \<open>
  \<open>__init__\<close>, given the worksheet's rows and the result of \<open>get_all_records()\<close>; a
  record without the key \<open>id\<close> raises \<open>KeyError\<close>.
\<close>

fun load_ids :: "pydict list \<Rightarrow> pyval fset \<Rightarrow> error + pyval fset" where
  "load_ids [] s = Inr s"
| "load_ids (r # rest) s =
     (case map_of r ''id'' of
        None \<Rightarrow> Inl (KeyError ''id'')
      | Some v \<Rightarrow> if hashable v then load_ids rest (finsert (py_key v) s) else Inl TypeError)"

definition SheetWrapper_init :: "row list \<Rightarrow> pydict list \<Rightarrow> error + SheetWrapper" where
  "SheetWrapper_init rows records =
     (if records = [] then
        Inr \<lparr>sheet = insert_row (map PStr dataclass_fields) 1 rows, ids = {||}, printed = []\<rparr>
      else
        (case load_ids records {||} of
           Inl e \<Rightarrow> Inl e
         | Inr s \<Rightarrow> Inr \<lparr>sheet = rows, ids = s, printed = []\<rparr>))"

text \<open>
  \<open>insert\<close>. Membership in the \<open>set\<close> hashes the id, so a list or a dictionary as id
  raises \<open>TypeError\<close>. \<open>padded\<close> is the platform's way of writing a year (see
  \<open>strftime\<close>).
\<close>

definition SheetWrapper_insert ::
  "bool \<Rightarrow> SheetWrapper \<Rightarrow> HouseEntry \<Rightarrow> error + SheetWrapper" where
  "SheetWrapper_insert padded w entry =
     (if \<not> hashable (id' entry) then Inl TypeError
      else if py_key (id' entry) |\<notin>| ids w then
        (let ids' = finsert (py_key (id' entry)) (ids w);
             row = map snd (asdict padded entry)
         in Inr \<lparr>sheet = insert_row row (fcard ids' + 1) (sheet w), ids = ids',
                  printed = printed w @ [FoundNew entry]\<rparr>)
      else Inr (w\<lparr>printed := printed w @ [AlreadyExists (id' entry)]\<rparr>))"

text \<open>A sequence of \<open>insert\<close> calls, as \<open>fetch_houses\<close> makes them; an exception ends it.\<close>

fun insert_all :: "bool \<Rightarrow> SheetWrapper \<Rightarrow> HouseEntry list \<Rightarrow> error + SheetWrapper" where
  "insert_all padded w [] = Inr w"
| "insert_all padded w (entry # rest) =
     (case SheetWrapper_insert padded w entry of
        Inl e \<Rightarrow> Inl e
      | Inr w' \<Rightarrow> insert_all padded w' rest)"

text \<open>The entries reported as new in a list of printed events.\<close>

fun found_new :: "event list \<Rightarrow> HouseEntry list" where
  "found_new [] = []"
| "found_new (FoundNew h # evs) = h # found_new evs"
| "found_new (AlreadyExists v # evs) = found_new evs"

section \<open>Example inputs\<close>

text \<open>A provider without locations and without listings.\<close>

definition no_listings :: provider where
  "no_listings = \<lparr>location_api = (\<lambda>name. []), cards_api = (\<lambda>u. \<lparr>cards = [], found = 0\<rparr>)\<rparr>"

text \<open>\<open>query()\<close> with its defaults, and \<open>query\<close> with empty lists and no bounds.\<close>

definition default_args :: query_args where
  "default_args =
     \<lparr>locations = None, house_type = None, room_count = None, price_min = None,
      price_max = None, size_min = None, size_max = None, limit = 50\<rparr>"

definition unfiltered_args :: query_args where
  "unfiltered_args =
     \<lparr>locations = Some [], house_type = Some [], room_count = Some [], price_min = None,
      price_max = None, size_min = None, size_max = None, limit = 50\<rparr>"

text \<open>The raw entry of the specification's scenario.\<close>

definition scenario_entry :: pydict where
  "scenario_entry =
     [(''id'', PInt 42),
      (''description'', PStr (''Nice'' @ [CHR 0x0A] @ ''flat'')),
      (''buildingData'', PDict [(''year'', PInt 1990)]),
      (''coordinates'', PDict [(''longitude'', PFloat 24.9), (''latitude'', PFloat 60.2)]),
      (''published'', PStr ''2021-05-01T10:00:00Z'')]"

text \<open>The instant \<open>2021-05-01T10:00:00Z\<close>.\<close>

definition scenario_instant :: datetime where
  "scenario_instant =
     \<lparr>dt_year = 2021, dt_month = 5, dt_day = 1, dt_hour = 10, dt_minute = 0, dt_second = 0,
      dt_microsecond = 0\<rparr>"

text \<open>The ten fields the scenario leaves out, and entries that carry them.\<close>

definition listing_fields :: pydict where
  "listing_fields =
     [(''url'', PStr ''/myytavat-asunnot/helsinki/42''), (''rooms'', PInt 2),
      (''price'', PInt 250000), (''size'', PInt 54), (''address'', PStr ''Katu 1''),
      (''district'', PStr ''Kallio''), (''city'', PStr ''Helsinki''),
      (''country'', PStr ''Suomi''), (''visits'', PInt 10), (''visits_weekly'', PInt 3)]"

definition plain_entry :: pydict where
  "plain_entry = [(''id'', PInt 42), (''year'', PInt 1990)] @ listing_fields"

definition overlap_entry :: pydict where
  "overlap_entry =
     [(''id'', PInt 42), (''buildingData'', PDict [(''year'', PInt 1990), (''rooms'', PInt 3)])]
     @ listing_fields"

definition extra_entry :: pydict where
  "extra_entry =
     [(''id'', PInt 42), (''buildingData'', PDict [(''year'', PInt 1990), (''floors'', PInt 5)])]
     @ listing_fields"

definition republished_entry :: pydict where
  "republished_entry =
     [(''id'', PInt 42), (''published'', PStr ''2021-05-01T10:00:00Z''),
      (''buildingData'',
         PDict [(''year'', PInt 1990), (''published'', PStr ''2000-01-01T00:00:00Z'')])]
     @ listing_fields"

text \<open>The URLs of the first three pages of an unfiltered query with limit 50.\<close>

definition url_0 :: string where
  "url_0 = ''https://asunnot.oikotie.fi/api/cards?locations=]&limit=50&cardType=101&sortBy=published_sort_desc''"

definition url_50 :: string where
  "url_50 = ''https://asunnot.oikotie.fi/api/cards?locations=]&limit=50&cardType=101&offset=50&sortBy=published_sort_desc''"

definition url_100 :: string where
  "url_100 = ''https://asunnot.oikotie.fi/api/cards?locations=]&limit=50&cardType=101&offset=100&sortBy=published_sort_desc''"

text \<open>
  A provider whose first page reports 100 listings and whose later pages report 200
  (listings added while the query runs).
\<close>

definition growing :: provider where
  "growing =
     \<lparr>location_api = (\<lambda>name. []),
      cards_api = (\<lambda>u. \<lparr>cards = [],
         found = (if u = url_0 then 100 else 200)\<rparr>)\<rparr>"

text \<open>A provider that reports 120 listings on every page and sends one entry per page.\<close>

definition steady :: provider where
  "steady = \<lparr>location_api = (\<lambda>name. []),
             cards_api = (\<lambda>u. \<lparr>cards = [plain_entry], found = 120\<rparr>)\<rparr>"

text \<open>The record \<open>_entry_builder\<close> makes of \<open>plain_entry\<close>.\<close>

definition plain_record :: HouseEntry where
  "plain_record =
     \<lparr>id' = PInt 42, url = PStr ''/myytavat-asunnot/helsinki/42'', description = PStr [],
      rooms = PInt 2, room_configuration = PNone, price = PInt 250000, published = PNone,
      size' = PInt 54, address = PStr ''Katu 1'', district = PStr ''Kallio'',
      city = PStr ''Helsinki'', country = PStr ''Suomi'', year = PInt 1990,
      building_type = PNone, longitude = PNone, latitude = PNone, brand_name = PNone,
      price_changed = PNone, visits = PInt 10, visits_weekly = PInt 3\<rparr>"

text \<open>
  The header row, the row of \<open>plain_record\<close>, and the wrapper built on a worksheet
  that holds the header row only (\<open>get_all_records()\<close> returns no record for it, so
  \<open>__init__\<close> inserts the header once more).
\<close>

definition header_row :: row where
  "header_row = map PStr dataclass_fields"

definition plain_row :: row where
  "plain_row =
     [PInt 42, PStr ''/myytavat-asunnot/helsinki/42'', PStr [], PInt 2, PNone, PInt 250000,
      PNone, PInt 54, PStr ''Katu 1'', PStr ''Kallio'', PStr ''Helsinki'', PStr ''Suomi'',
      PInt 1990, PNone, PNone, PNone, PNone, PNone, PInt 10, PInt 3]"

definition header_only_sheet :: SheetWrapper where
  "header_only_sheet = \<lparr>sheet = [header_row, header_row], ids = {||}, printed = []\<rparr>"

text \<open>
  A location search that knows two places called \<open>Keskusta, Helsinki\<close> and none of
  any other name.
\<close>

definition two_matches :: provider where
  "two_matches =
     \<lparr>location_api = (\<lambda>name. if name = ''Keskusta, Helsinki''
                               then [\<lparr>cardId = 64, cardType = 6\<rparr>, \<lparr>cardId = 1234, cardType = 4\<rparr>]
                               else []),
      cards_api = (\<lambda>u. \<lparr>cards = [], found = 0\<rparr>)\<rparr>"


text \<open>A timestamp of the year 99, and the instant it denotes.\<close>

definition early_timestamp :: string where
  "early_timestamp = ''0099-01-01T00:00:00Z''"

definition early_instant :: datetime where
  "early_instant =
     \<lparr>dt_year = 99, dt_month = 1, dt_day = 1, dt_hour = 0, dt_minute = 0, dt_second = 0,
      dt_microsecond = 0\<rparr>"

section \<open>Properties of the timestamp conversion\<close>

declare show_nat.simps [simp del]

lemma of_char_digit_char: "d < 10 \<Longrightarrow> (of_char (digit_char d) :: nat) = 48 + d"
  by (simp add: digit_char_def)

lemma digit_val_digit_char: "d < 10 \<Longrightarrow> digit_val (digit_char d) = d"
  by (simp add: digit_val_def of_char_digit_char)

lemma in_range_digit_char:
  "d < 10 \<Longrightarrow> in_range lo hi (digit_char d) \<longleftrightarrow> (of_char lo :: nat) \<le> 48 + d \<and> 48 + d \<le> (of_char hi :: nat)"
  by (simp add: in_range_def of_char_digit_char)

lemma is_digit_digit_char: "d < 10 \<Longrightarrow> is_digit (digit_char d)"
  by (simp add: is_digit_def in_range_digit_char)

lemma is_digit_val: "is_digit c \<Longrightarrow> digit_val c < 10"
  by (auto simp: is_digit_def in_range_def digit_val_def)

lemma digit_char_digit_val: "is_digit c \<Longrightarrow> digit_char (digit_val c) = c"
  by (auto simp: is_digit_def in_range_def digit_val_def digit_char_def)

lemma digits_val_snoc: "digits_val (xs @ [c]) = 10 * digits_val xs + digit_val c"
  by (simp add: digits_val_def)

lemma length_pad_nat: "length (pad_nat w n) = w"
  by (induction w arbitrary: n) simp_all

lemma digits_pad_nat: "list_all is_digit (pad_nat w n)"
  by (induction w arbitrary: n) (simp_all add: is_digit_digit_char)

lemma digits_val_pad_nat: "n < 10 ^ w \<Longrightarrow> digits_val (pad_nat w n) = n"
proof (induction w arbitrary: n)
  case 0
  then show ?case by (simp add: digits_val_def)
next
  case (Suc w)
  have "n div 10 < 10 ^ w" using Suc.prems by (simp add: less_mult_imp_div_less mult.commute)
  then show ?case using Suc.IH [of "n div 10"]
    by (simp add: digits_val_snoc digit_val_digit_char)
qed

lemma pad_nat_digits_val: "list_all is_digit s \<Longrightarrow> pad_nat (length s) (digits_val s) = s"
proof (induction s rule: rev_induct)
  case Nil
  then show ?case by simp
next
  case (snoc c s)
  then have c: "is_digit c" and s: "list_all is_digit s" by simp_all
  have "digit_val c < 10" using c by (rule is_digit_val)
  then show ?case using snoc.IH [OF s] c
    by (simp add: digits_val_snoc digit_char_digit_val)
qed


lemma split_at_sep:
  "\<forall>c\<in>set a. \<not> sep c \<Longrightarrow> sep x \<Longrightarrow> split_at sep (a @ x # r) = Some (a, r)"
  by (induction a) simp_all

lemma py_int_digits: "list_all is_digit a \<Longrightarrow> py_int a = digits_val a"
  by (cases a) (auto simp: py_int_def is_digit_def in_range_def)

lemma field_digits:
  assumes "list_all is_digit a" "sep x" "\<And>c. is_digit c \<Longrightarrow> \<not> sep c"
  shows "field pat sep (a @ x # r) = (if pat a then Some (digits_val a, r) else None)"
proof -
  have "\<forall>c\<in>set a. \<not> sep c" using assms(1,3) by (auto simp: list_all_iff)
  then have "split_at sep (a @ x # r) = Some (a, r)" using assms(2) by (rule split_at_sep)
  then show ?thesis using assms(1) by (simp add: field_def py_int_digits)
qed

lemma digit_not_sep:
  "is_digit c \<Longrightarrow> \<not> lit (CHR ''-'') c"
  "is_digit c \<Longrightarrow> \<not> lit (CHR '':'') c"
  "is_digit c \<Longrightarrow> \<not> lit_T c"
  "is_digit c \<Longrightarrow> \<not> lit_Z c"
  by (auto simp: is_digit_def in_range_def lit_def lit_T_def lit_Z_def)

lemma strptime_match_fields:
  assumes "list_all is_digit Y" "list_all is_digit m" "list_all is_digit d"
    "list_all is_digit H" "list_all is_digit M" "list_all is_digit S"
  shows "strptime_match (Y @ ''-'' @ m @ ''-'' @ d @ ''T'' @ H @ '':'' @ M @ '':'' @ S @ ''Z'')
       = (if pat_Y Y \<and> pat_m m \<and> pat_d d \<and> pat_H H \<and> pat_M M \<and> pat_S S
          then Some (digits_val Y, digits_val m, digits_val d, digits_val H, digits_val M, digits_val S)
          else None)"
proof -
  have f1: "\<And>r. field pat_Y (lit (CHR ''-'')) (Y @ CHR ''-'' # r) = (if pat_Y Y then Some (digits_val Y, r) else None)"
    using assms(1) by (intro field_digits) (simp_all add: digit_not_sep, simp add: lit_def)
  have f2: "\<And>r. field pat_m (lit (CHR ''-'')) (m @ CHR ''-'' # r) = (if pat_m m then Some (digits_val m, r) else None)"
    using assms(2) by (intro field_digits) (simp_all add: digit_not_sep, simp add: lit_def)
  have f3: "\<And>r. field pat_d lit_T (d @ CHR ''T'' # r) = (if pat_d d then Some (digits_val d, r) else None)"
    using assms(3) by (intro field_digits) (simp_all add: digit_not_sep, simp add: lit_T_def)
  have f4: "\<And>r. field pat_H (lit (CHR '':'')) (H @ CHR '':'' # r) = (if pat_H H then Some (digits_val H, r) else None)"
    using assms(4) by (intro field_digits) (simp_all add: digit_not_sep, simp add: lit_def)
  have f5: "\<And>r. field pat_M (lit (CHR '':'')) (M @ CHR '':'' # r) = (if pat_M M then Some (digits_val M, r) else None)"
    using assms(5) by (intro field_digits) (simp_all add: digit_not_sep, simp add: lit_def)
  have f6: "\<And>r. field pat_S lit_Z (S @ CHR ''Z'' # r) = (if pat_S S then Some (digits_val S, r) else None)"
    using assms(6) by (intro field_digits) (simp_all add: digit_not_sep, simp add: lit_Z_def)
  show ?thesis
    unfolding strptime_match_def by (simp add: f1 f2 f3 f4 f5 f6)
qed

lemma pad_nat_2: "pad_nat 2 n = [digit_char (n div 10 mod 10), digit_char (n mod 10)]"
  by (simp add: numeral_2_eq_2)

lemma digit_char_eq: "d < 10 \<Longrightarrow> digit_char d = c \<longleftrightarrow> (of_char c :: nat) = 48 + d"
  using of_char_digit_char [of d] of_char_eq_iff [of "digit_char d" c, where ?'a = nat]
  by auto

lemma digit_char_lits:
  "digit_char 0 = CHR ''0''" "digit_char 1 = CHR ''1''" "digit_char 2 = CHR ''2''"
  "digit_char 3 = CHR ''3''" "digit_char (Suc 0) = CHR ''1''"
  by (simp_all add: digit_char_eq)

lemma digit_char_numerals:
  "digit_char 0 = CHR ''0''" "digit_char 1 = CHR ''1''" "digit_char 2 = CHR ''2''"
  "digit_char 3 = CHR ''3''" "digit_char 4 = CHR ''4''" "digit_char 5 = CHR ''5''"
  "digit_char 6 = CHR ''6''" "digit_char 7 = CHR ''7''" "digit_char 8 = CHR ''8''"
  "digit_char 9 = CHR ''9''" "digit_char (Suc 0) = CHR ''1''"
  by (simp_all add: digit_char_eq)

lemma pat_m_pad: "1 \<le> n \<Longrightarrow> n \<le> 12 \<Longrightarrow> pat_m (pad_nat 2 n)"
proof -
  assume n: "1 \<le> n" "n \<le> 12"
  show ?thesis
  proof (cases "n < 10")
    case True
    then show ?thesis using n
      by (simp add: pad_nat_2 digit_char_lits in_range_digit_char)
  next
    case False
    then have "n div 10 = 1" "n mod 10 \<le> 2" using n by presburger+
    then show ?thesis
      by (simp add: pad_nat_2 digit_char_lits in_range_digit_char)
  qed
qed

lemma pat_d_pad: "1 \<le> n \<Longrightarrow> n \<le> 31 \<Longrightarrow> pat_d (pad_nat 2 n)"
proof -
  assume n: "1 \<le> n" "n \<le> 31"
  consider "n < 10" | "10 \<le> n" "n < 30" | "30 \<le> n" by linarith
  then show ?thesis
  proof cases
    case 1
    then show ?thesis using n
      by (simp add: pad_nat_2 digit_char_lits in_range_digit_char)
  next
    case 2
    then have "1 \<le> n div 10" "n div 10 \<le> 2" by auto
    then show ?thesis
      by (simp add: pad_nat_2 in_range_digit_char is_digit_digit_char)
  next
    case 3
    then have "n div 10 = 3" "n mod 10 \<le> 1" using n by presburger+
    then show ?thesis
      by (simp add: pad_nat_2 digit_char_lits in_range_digit_char)
  qed
qed

lemma pat_H_pad: "n \<le> 23 \<Longrightarrow> pat_H (pad_nat 2 n)"
proof -
  assume n: "n \<le> 23"
  show ?thesis
  proof (cases "n < 20")
    case True
    then have "n div 10 \<le> 1" by auto
    then show ?thesis
      by (simp add: pad_nat_2 in_range_digit_char is_digit_digit_char)
  next
    case False
    then have "n div 10 = 2" "n mod 10 \<le> 3" using n by presburger+
    then show ?thesis
      by (simp add: pad_nat_2 digit_char_lits in_range_digit_char)
  qed
qed

lemma pat_M_pad: "n \<le> 59 \<Longrightarrow> pat_M (pad_nat 2 n)"
proof -
  assume "n \<le> 59"
  then have "n div 10 \<le> 5" by auto
  then show ?thesis
    by (simp add: pad_nat_2 in_range_digit_char is_digit_digit_char)
qed

lemma pat_S_pad: "n \<le> 59 \<Longrightarrow> pat_S (pad_nat 2 n)"
proof -
  assume "n \<le> 59"
  then have "n div 10 \<le> 5" by auto
  then show ?thesis
    by (simp add: pad_nat_2 in_range_digit_char is_digit_digit_char)
qed

lemma days_in_month_le: "days_in_month y m \<le> 31"
  by (simp add: days_in_month_def)

lemma pad_nat_4:
  "pad_nat 4 n
      = [digit_char (n div 10 div 10 div 10 mod 10), digit_char (n div 10 div 10 mod 10),
         digit_char (n div 10 mod 10), digit_char (n mod 10)]"
proof -
  have four: "(4::nat) = Suc (Suc (Suc (Suc 0)))" by arith
  show ?thesis unfolding four by simp
qed

lemma show_nat_step: "10 \<le> n \<Longrightarrow> show_nat n = show_nat (n div 10) @ [digit_char (n mod 10)]"
  by (subst show_nat.simps) simp

lemma show_nat_digit: "n < 10 \<Longrightarrow> show_nat n = [digit_char n]"
  by (subst show_nat.simps) simp

lemma show_nat_4:
  assumes "1000 \<le> n" "n \<le> 9999"
  shows "show_nat n = pad_nat 4 n"
proof -
  have a1: "100 \<le> n div 10" "n div 10 \<le> 999" using assms by simp_all
  then have a2: "10 \<le> n div 10 div 10" "n div 10 div 10 \<le> 99" by simp_all
  then have a3: "n div 10 div 10 div 10 < 10" by simp
  have "show_nat n = show_nat (n div 10) @ [digit_char (n mod 10)]"
    using assms(1) by (intro show_nat_step) simp
  also have "show_nat (n div 10) = show_nat (n div 10 div 10) @ [digit_char (n div 10 mod 10)]"
    using a1(1) by (intro show_nat_step) simp
  also have "show_nat (n div 10 div 10)
      = show_nat (n div 10 div 10 div 10) @ [digit_char (n div 10 div 10 mod 10)]"
    using a2(1) by (rule show_nat_step)
  also have "show_nat (n div 10 div 10 div 10) = [digit_char (n div 10 div 10 div 10)]"
    using a3 by (rule show_nat_digit)
  finally have l: "show_nat n
      = [digit_char (n div 10 div 10 div 10), digit_char (n div 10 div 10 mod 10),
         digit_char (n div 10 mod 10), digit_char (n mod 10)]"
    by (simp only: append.simps append_assoc)
  from a3 have "n div 10 div 10 div 10 mod 10 = n div 10 div 10 div 10" by (rule mod_less)
  with l show ?thesis by (simp only: pad_nat_4)
qed

lemma format_year_pad:
  "padded \<or> 1000 \<le> y \<Longrightarrow> y \<le> 9999 \<Longrightarrow> format_year padded y = pad_nat 4 y"
  by (auto simp: format_year_def show_nat_4)

lemma strptime_strftime:
  assumes "valid_datetime t" "dt_microsecond t = 0" "padded \<or> 1000 \<le> dt_year t"
  shows "strptime (strftime padded t) = Inr t"
proof -
  have v: "1 \<le> dt_year t" "dt_year t \<le> 9999" "1 \<le> dt_month t" "dt_month t \<le> 12"
    "1 \<le> dt_day t" "dt_day t \<le> 31" "dt_hour t \<le> 23" "dt_minute t \<le> 59" "dt_second t \<le> 59"
    using assms(1) days_in_month_le [of "dt_year t" "dt_month t"]
    by (auto simp: valid_datetime_def)
  have y: "format_year padded (dt_year t) = pad_nat 4 (dt_year t)"
    using assms(3) v(2) by (rule format_year_pad)
  have pats: "pat_Y (pad_nat 4 (dt_year t))" "pat_m (pad_nat 2 (dt_month t))"
    "pat_d (pad_nat 2 (dt_day t))" "pat_H (pad_nat 2 (dt_hour t))"
    "pat_M (pad_nat 2 (dt_minute t))" "pat_S (pad_nat 2 (dt_second t))"
    using v by (simp_all add: pat_Y_def length_pad_nat digits_pad_nat pat_m_pad pat_d_pad
        pat_H_pad pat_M_pad pat_S_pad)
  have vals: "digits_val (pad_nat 4 (dt_year t)) = dt_year t"
    "digits_val (pad_nat 2 (dt_month t)) = dt_month t"
    "digits_val (pad_nat 2 (dt_day t)) = dt_day t"
    "digits_val (pad_nat 2 (dt_hour t)) = dt_hour t"
    "digits_val (pad_nat 2 (dt_minute t)) = dt_minute t"
    "digits_val (pad_nat 2 (dt_second t)) = dt_second t"
    using v by (simp_all add: digits_val_pad_nat)
  have "strptime_match (strftime padded t)
      = Some (dt_year t, dt_month t, dt_day t, dt_hour t, dt_minute t, dt_second t)"
    unfolding strftime_def y
    by (simp only: strptime_match_fields [OF digits_pad_nat digits_pad_nat digits_pad_nat
          digits_pad_nat digits_pad_nat digits_pad_nat] pats vals simp_thms if_True)
  moreover have "\<lparr>dt_year = dt_year t, dt_month = dt_month t, dt_day = dt_day t,
      dt_hour = dt_hour t, dt_minute = dt_minute t, dt_second = dt_second t,
      dt_microsecond = 0\<rparr> = t"
    using assms(2) by simp
  ultimately show ?thesis using assms(1) by (simp add: strptime_def)
qed

lemma fixed_format_parts:
  assumes "fixed_format s"
  obtains Y m d H M S where
    "s = Y @ ''-'' @ m @ ''-'' @ d @ ''T'' @ H @ '':'' @ M @ '':'' @ S @ ''Z''"
    "length Y = 4" "length m = 2" "length d = 2" "length H = 2" "length M = 2" "length S = 2"
    "list_all is_digit Y" "list_all is_digit m" "list_all is_digit d"
    "list_all is_digit H" "list_all is_digit M" "list_all is_digit S"
proof -
  from assms obtain y1 y2 y3 y4 m1 m2 d1 d2 h1 h2 n1 n2 s1 s2 where
    s: "s = [y1, y2, y3, y4, CHR ''-'', m1, m2, CHR ''-'', d1, d2, CHR ''T'', h1, h2, CHR '':'',
             n1, n2, CHR '':'', s1, s2, CHR ''Z'']"
    and dg: "is_digit y1" "is_digit y2" "is_digit y3" "is_digit y4" "is_digit m1" "is_digit m2"
      "is_digit d1" "is_digit d2" "is_digit h1" "is_digit h2" "is_digit n1" "is_digit n2"
      "is_digit s1" "is_digit s2"
    unfolding fixed_format_def by (auto simp: list_all2_Cons1)
  show ?thesis
    by (rule that [of "[y1, y2, y3, y4]" "[m1, m2]" "[d1, d2]" "[h1, h2]" "[n1, n2]" "[s1, s2]"])
      (simp_all add: s dg)
qed

lemma strptime_valid: "strptime s = Inr t \<Longrightarrow> valid_datetime t"
  by (auto simp: strptime_def Let_def split: option.splits if_splits)

lemma strftime_strptime:
  assumes "fixed_format s" "strptime s = Inr t" "padded \<or> 1000 \<le> dt_year t"
  shows "strftime padded t = s"
proof -
  from assms(1) obtain Y m d H M S where
    s: "s = Y @ ''-'' @ m @ ''-'' @ d @ ''T'' @ H @ '':'' @ M @ '':'' @ S @ ''Z''"
    and len: "length Y = 4" "length m = 2" "length d = 2" "length H = 2" "length M = 2" "length S = 2"
    and dg: "list_all is_digit Y" "list_all is_digit m" "list_all is_digit d"
      "list_all is_digit H" "list_all is_digit M" "list_all is_digit S"
    by (rule fixed_format_parts)
  have m: "strptime_match s = (if pat_Y Y \<and> pat_m m \<and> pat_d d \<and> pat_H H \<and> pat_M M \<and> pat_S S
          then Some (digits_val Y, digits_val m, digits_val d, digits_val H, digits_val M, digits_val S)
          else None)"
    unfolding s by (rule strptime_match_fields [OF dg])
  from assms(2) have t: "t = \<lparr>dt_year = digits_val Y, dt_month = digits_val m, dt_day = digits_val d,
      dt_hour = digits_val H, dt_minute = digits_val M, dt_second = digits_val S,
      dt_microsecond = 0\<rparr>"
    unfolding strptime_def m by (auto simp: Let_def split: if_splits)
  from strptime_valid [OF assms(2)] have "dt_year t \<le> 9999"
    by (simp add: valid_datetime_def)
  with assms(3) have "format_year padded (dt_year t) = pad_nat 4 (dt_year t)"
    by (rule format_year_pad)
  then have y: "format_year padded (digits_val Y) = pad_nat 4 (digits_val Y)"
    by (simp add: t)
  have "pad_nat 4 (digits_val Y) = Y" "pad_nat 2 (digits_val m) = m" "pad_nat 2 (digits_val d) = d"
    "pad_nat 2 (digits_val H) = H" "pad_nat 2 (digits_val M) = M" "pad_nat 2 (digits_val S) = S"
    using pad_nat_digits_val [OF dg(1)] pad_nat_digits_val [OF dg(2)] pad_nat_digits_val [OF dg(3)]
      pad_nat_digits_val [OF dg(4)] pad_nat_digits_val [OF dg(5)] pad_nat_digits_val [OF dg(6)]
    by (simp_all only: len)
  then show ?thesis
    unfolding strftime_def t s by (simp only: datetime.simps y)
qed

lemmas strptime_eval =
  convert_ts_def strptime_def strptime_match_def field_def lit_def lit_T_def
  lit_Z_def pat_Y_def is_digit_def in_range_def py_int_def digits_val_def digit_val_def
  valid_datetime_def days_in_month_def is_leap_def

text \<open>
  Claim C7, as amended. For a timestamp of the fixed format \<open>YYYY-MM-DDTHH:MM:SSZ\<close>
  that \<open>_convert_ts\<close> parses and whose year is 1000 or later, the formatting of
  \<open>HouseEntry.asdict\<close> gives the string back; and an instant with second precision of
  the year 1000 or later, formatted by \<open>asdict\<close>, is parsed back to itself by
  \<open>_convert_ts\<close>. For the years 1 to 999 both hold where the platform's \<open>strftime\<close>
  writes the year in four digits.
\<close>

theorem timestamp_roundtrip:
  "(fixed_format s \<longrightarrow> convert_ts (PStr s) = Inr (PDatetime t)
      \<longrightarrow> padded \<or> 1000 \<le> dt_year t
      \<longrightarrow> asdict_value padded (PDatetime t) = PStr s)
 \<and> (valid_datetime t' \<longrightarrow> dt_microsecond t' = 0
      \<longrightarrow> padded \<or> 1000 \<le> dt_year t'
      \<longrightarrow> convert_ts (asdict_value padded (PDatetime t')) = Inr (PDatetime t'))"
proof (intro conjI impI)
  assume f: "fixed_format s" and c: "convert_ts (PStr s) = Inr (PDatetime t)"
    and y: "padded \<or> 1000 \<le> dt_year t"
  from f have "s \<noteq> []" by (auto simp: fixed_format_def)
  with c have u: "strptime s = Inr t"
    by (auto simp: convert_ts_def split: sum.splits)
  from f u y have "strftime padded t = s" by (rule strftime_strptime)
  then show "asdict_value padded (PDatetime t) = PStr s" by (simp add: asdict_value_def)
next
  assume t: "valid_datetime t'" "dt_microsecond t' = 0" "padded \<or> 1000 \<le> dt_year t'"
  have ne: "strftime padded t' \<noteq> []" by (simp add: strftime_def)
  from t have "strptime (strftime padded t') = Inr t'" by (rule strptime_strftime)
  then show "convert_ts (asdict_value padded (PDatetime t')) = Inr (PDatetime t')"
    using ne by (simp add: asdict_value_def convert_ts_def)
qed

theorem timestamp_roundtrip_witness:
  "fixed_format ''2021-05-01T10:00:00Z''
 \<and> convert_ts (PStr ''2021-05-01T10:00:00Z'') = Inr (PDatetime scenario_instant)
 \<and> 1000 \<le> dt_year scenario_instant
 \<and> asdict_value False (PDatetime scenario_instant) = PStr ''2021-05-01T10:00:00Z''
 \<and> valid_datetime scenario_instant
 \<and> dt_microsecond scenario_instant = 0
 \<and> convert_ts (asdict_value False (PDatetime scenario_instant))
     = Inr (PDatetime scenario_instant)"
proof -
  let ?s = "''2021-05-01T10:00:00Z''"
  have f: "fixed_format ?s"
    by (simp add: fixed_format_def is_digit_def in_range_def)
  have c: "convert_ts (PStr ?s) = Inr (PDatetime scenario_instant)"
    by (simp add: strptime_eval scenario_instant_def)
  have v: "valid_datetime scenario_instant"
    by (simp add: valid_datetime_def days_in_month_def is_leap_def scenario_instant_def)
  have m: "dt_microsecond scenario_instant = 0" by (simp add: scenario_instant_def)
  have y: "1000 \<le> dt_year scenario_instant" by (simp add: scenario_instant_def)
  from timestamp_roundtrip [of ?s scenario_instant False scenario_instant] f c v m y
  show ?thesis by blast
qed

text \<open>
  The claim as stated fails where the year is written without padding (glibc): the
  valid timestamp \<open>0099-01-01T00:00:00Z\<close> is parsed, the instant is formatted as
  \<open>99-01-01T00:00:00Z\<close>, and that string is not parsed back.
\<close>

theorem early_year_counterexample:
  "fixed_format early_timestamp
 \<and> convert_ts (PStr early_timestamp) = Inr (PDatetime early_instant)
 \<and> valid_datetime early_instant
 \<and> dt_microsecond early_instant = 0
 \<and> asdict_value False (PDatetime early_instant) = PStr ''99-01-01T00:00:00Z''
 \<and> convert_ts (PStr ''99-01-01T00:00:00Z'') = Inl ValueError"
proof -
  have f: "fixed_format early_timestamp"
    by (simp add: early_timestamp_def fixed_format_def is_digit_def in_range_def)
  have c: "convert_ts (PStr early_timestamp) = Inr (PDatetime early_instant)"
    by (simp add: strptime_eval early_timestamp_def early_instant_def)
  have v: "valid_datetime early_instant" "dt_microsecond early_instant = 0"
    by (simp_all add: valid_datetime_def days_in_month_def is_leap_def early_instant_def)
  have s: "show_nat 99 = ''99''"
    by (simp add: show_nat_step show_nat_digit digit_char_numerals)
  have a: "asdict_value False (PDatetime early_instant) = PStr ''99-01-01T00:00:00Z''"
    by (simp add: asdict_value_def strftime_def format_year_def early_instant_def s
        pad_nat_2 digit_char_numerals)
  have r: "convert_ts (PStr ''99-01-01T00:00:00Z'') = Inl ValueError"
    by (simp add: strptime_eval)
  from f c v a r show ?thesis by blast
qed

section \<open>Properties of the filter encoder\<close>

lemma house_types_None:
  "house_types k = None \<longleftrightarrow> k \<notin> {''kerrostalo'', ''rivitalo'', ''paritalo'', ''omakotitalo''}"
  by (simp add: house_types_def)

lemma expand_unknown:
  "\<exists>k\<in>set hts. house_types k = None \<Longrightarrow>
   \<exists>k\<in>set hts. house_types k = None \<and> expand_house_types hts = Inl (KeyError k)"
proof (induction hts)
  case Nil
  then show ?case by simp
next
  case (Cons h hts)
  show ?case
  proof (cases "house_types h")
    case None
    then show ?thesis by simp
  next
    case (Some codes)
    with Cons.prems have "\<exists>k\<in>set hts. house_types k = None" by auto
    from Cons.IH [OF this] obtain k where "k \<in> set hts" "house_types k = None"
      "expand_house_types hts = Inl (KeyError k)" by blast
    with Some show ?thesis by auto
  qed
qed

text \<open>
  Claim C4. When the house-type list of a query contains a name outside
  \<open>kerrostalo\<close>, \<open>rivitalo\<close>, \<open>paritalo\<close>, \<open>omakotitalo\<close>, building the parameters fails
  with the \<open>KeyError\<close> of such a name (the failure the specification calls
  \<open>InvalidFilter\<close>), at whatever offset, and the log of requests is unchanged: neither a
  location lookup nor a listings request has been issued. The query yields nothing
  and ends with that error, its log unchanged as well.
\<close>

theorem unknown_house_type_fails_before_network:
  assumes "house_type a = Some hts"
    and "\<exists>k\<in>set hts. k \<notin> {''kerrostalo'', ''rivitalo'', ''paritalo'', ''omakotitalo''}"
  shows "\<exists>k\<in>set hts. k \<notin> {''kerrostalo'', ''rivitalo'', ''paritalo'', ''omakotitalo''}
           \<and> params_builder srv a offset reqs = (Inl (KeyError k), reqs)
           \<and> query srv a reqs = ([], Some (KeyError k), reqs)"
proof -
  from assms(2) have "\<exists>k\<in>set hts. house_types k = None"
    by (simp only: house_types_None)
  from expand_unknown [OF this] obtain k where k: "k \<in> set hts" "house_types k = None"
    and e: "expand_house_types hts = Inl (KeyError k)" by blast
  have p: "\<And>i. params_builder srv a i reqs = (Inl (KeyError k), reqs)"
    by (simp add: params_builder_def assms(1) e)
  have "query srv a reqs = ([], Some (KeyError k), reqs)"
    by (simp add: query_def execute_def p)
  with k p show ?thesis by (auto simp only: house_types_None)
qed

theorem unknown_house_type_fails_before_network_witness:
  "query no_listings (unfiltered_args\<lparr>house_type := Some [''kerrostalo'', ''linna'']\<rparr>) []
     = ([], Some (KeyError ''linna''), [])
 \<and> params_builder no_listings (unfiltered_args\<lparr>house_type := Some [''kerrostalo'', ''linna'']\<rparr>) 0 []
     = (Inl (KeyError ''linna''), [])"
  using unknown_house_type_fails_before_network
    [of "unfiltered_args\<lparr>house_type := Some [''kerrostalo'', ''linna'']\<rparr>"
        "[''kerrostalo'', ''linna'']" no_listings 0 "[]"]
  by (simp add: unfiltered_args_def)

lemma location_nil: "location srv [] reqs = ('']'', reqs)"
  by (simp add: location_def)

text \<open>
  Claim C3, as amended. For a query whose list filters are empty lists and whose price
  and size bounds are absent, the encoder succeeds without a request, and the parameter
  string holds none of the optional filter parameters \<open>buildingType[]\<close>,
  \<open>roomCount[]\<close>, \<open>price[min]\<close>, \<open>price[max]\<close>, \<open>size[min]\<close>, \<open>size[max]\<close>. It
  holds exactly, in this order: the \<open>locations\<close> parameter with the token the
  location resolver returns for no names (when that token is not empty), \<open>limit\<close>
  (unless the limit is 0), \<open>cardType=101\<close>, \<open>offset\<close> only when the offset is not 0
  (a falsy value is skipped, so the first page carries no \<open>offset\<close>), and
  \<open>sortBy=published_sort_desc\<close>.
\<close>

theorem unfiltered_parameters:
  assumes "locations a = Some []" "house_type a = Some []"
    and "room_count a = None \<or> room_count a = Some []"
    and "price_min a = None" "price_max a = None" "size_min a = None" "size_max a = None"
  shows "params_builder srv a offset reqs
       = (Inr (render
            ((if fst (location srv [] reqs) = [] then []
              else [(''locations'', fst (location srv [] reqs))])
             @ (if limit a = 0 then [] else [(''limit'', show_int (limit a))])
             @ [(''cardType'', show_int 101)]
             @ (if offset = 0 then [] else [(''offset'', show_int offset)])
             @ [(''sortBy'', ''published_sort_desc'')])),
          reqs)"
proof -
  have "param_pairs (kwargs a offset '']'' [])
      = [(''locations'', '']'')]
        @ (if limit a = 0 then [] else [(''limit'', show_int (limit a))])
        @ [(''cardType'', show_int 101)]
        @ (if offset = 0 then [] else [(''offset'', show_int offset)])
        @ [(''sortBy'', ''published_sort_desc'')]"
    using assms(3-7)
    by (auto simp: param_pairs_def kwargs_def opt_int_def opt_ints_def param_map_def)
  then show ?thesis
    by (simp add: params_builder_def assms(1,2) location_nil)
qed

theorem unfiltered_parameters_witness:
  "params_builder no_listings unfiltered_args 50 []
     = (Inr ''?locations=]&limit=50&cardType=101&offset=50&sortBy=published_sort_desc'', [])"
  using unfiltered_parameters [of unfiltered_args no_listings 50 "[]"]
  by (simp add: unfiltered_args_def location_nil render_def show_int_def show_nat_step
      show_nat_digit digit_char_numerals)

text \<open>
  The claim as stated fails. With empty lists, no bounds and the initial offset 0, the
  parameter string has no \<open>offset\<close> and has a \<open>locations\<close> parameter; with the
  defaults of \<open>query\<close> (\<open>None\<close> for every filter) no string is produced at all.
\<close>

theorem no_filter_parameters_counterexample:
  "params_builder no_listings unfiltered_args 0 []
     = (Inr ''?locations=]&limit=50&cardType=101&sortBy=published_sort_desc'', [])
 \<and> params_builder no_listings default_args 0 [] = (Inl TypeError, [])"
  by (simp add: params_builder_def unfiltered_args_def default_args_def location_def kwargs_def
      param_pairs_def render_def opt_int_def opt_ints_def param_map_def show_int_def
      show_nat_step show_nat_digit digit_char_numerals)

section \<open>Properties of the location resolver\<close>

lemma location_entries_eq:
  "location_entries loc cs results
     = results @ concat (map (\<lambda>c. location_info loc c @ '','') cs)"
  by (induction cs arbitrary: results) simp_all

lemma location_loop_eq:
  "location_loop srv locs results reqs
     = (results @ concat (map (\<lambda>loc. concat (map (\<lambda>c. location_info loc c @ '','')
                                              (location_api srv loc))) locs),
        reqs @ map LocationGet locs)"
  by (induction locs arbitrary: results reqs) (simp_all add: location_entries_eq)

lemma location_eq:
  "location srv locs reqs
     = (butlast (''['' @ concat (map (\<lambda>loc. concat (map (\<lambda>c. location_info loc c @ '','')
                                              (location_api srv loc))) locs)) @ '']'',
        reqs @ map LocationGet locs)"
  by (simp add: location_def location_loop_eq)

lemma concat_skip_empty:
  "concat (map f (filter (\<lambda>x. g x \<noteq> []) xs)) = concat (map f xs)"
  if "\<And>x. g x = [] \<Longrightarrow> f x = []"
  using that by (induction xs) auto

lemma digit_char_not_blank:
  "d < 10 \<Longrightarrow> digit_char d \<noteq> CHR '' ''" "d < 10 \<Longrightarrow> CHR '' '' \<noteq> digit_char d"
  using digit_char_eq [of d "CHR '' ''"] by auto

lemma show_nat_no_blank: "CHR '' '' \<notin> set (show_nat n)"
proof (induction n rule: show_nat.induct)
  case (1 n)
  show ?case
  proof (cases "n < 10")
    case True
    then show ?thesis by (simp add: show_nat_digit digit_char_not_blank)
  next
    case False
    then have "show_nat n = show_nat (n div 10) @ [digit_char (n mod 10)]"
      by (intro show_nat_step) simp
    with 1 False show ?thesis by (simp add: digit_char_not_blank)
  qed
qed

lemma show_int_no_blank: "filter (\<lambda>c. c \<noteq> CHR '' '') (show_int i) = show_int i"
  using show_nat_no_blank by (auto simp: show_int_def filter_id_conv)

lemma location_info_eq:
  "location_info loc data
     = ''['' @ show_int (cardId data) @ '','' @ show_int (cardType data) @ '','' @ [CHR 0x22]
       @ map (\<lambda>c. if c = CHR '' '' then CHR ''+'' else c) loc @ [CHR 0x22] @ '']''"
proof -
  have "filter (\<lambda>c. c \<noteq> CHR '' '')
          (''['' @ show_int (cardId data) @ '', '' @ show_int (cardType data) @ '']'')
      = (''['' @ show_int (cardId data) @ '','' @ show_int (cardType data)) @ '']''"
    by (simp add: show_int_no_blank)
  then show ?thesis
    unfolding location_info_def by (simp only: butlast_snoc) simp
qed

text \<open>
  Claim C9. Every match is written into the token as the item
  \<open>[cardId,cardType,"name"]\<close>, with the name that was looked up (its blanks replaced
  by \<open>+\<close>). The composite token is the opening bracket followed, for each input name
  in input order, by the comma-terminated items of all the matches the provider
  returned for that name, in the provider's order and without removing duplicates; its
  last character is then replaced by the closing bracket. A name with no match adds
  nothing: leaving such names out of the input gives the same token. One lookup is
  issued per name, in input order.
\<close>

theorem location_token:
  "fst (location srv locs reqs)
     = butlast (''['' @ concat (map (\<lambda>loc. concat (map (\<lambda>c.
           ''['' @ show_int (cardId c) @ '','' @ show_int (cardType c) @ '','' @ [CHR 0x22]
           @ map (\<lambda>ch. if ch = CHR '' '' then CHR ''+'' else ch) loc @ [CHR 0x22] @ '']''
           @ '','') (location_api srv loc))) locs)) @ '']''
 \<and> fst (location srv (filter (\<lambda>loc. location_api srv loc \<noteq> []) locs) reqs)
     = fst (location srv locs reqs)
 \<and> snd (location srv locs reqs) = reqs @ map LocationGet locs"
proof -
  have "concat (map (\<lambda>loc. concat (map (\<lambda>c. location_info loc c @ '','') (location_api srv loc)))
          (filter (\<lambda>loc. location_api srv loc \<noteq> []) locs))
      = concat (map (\<lambda>loc. concat (map (\<lambda>c. location_info loc c @ '','') (location_api srv loc))) locs)"
    by (rule concat_skip_empty) simp
  then show ?thesis by (simp add: location_eq location_info_eq)
qed

theorem location_token_witness:
  "location two_matches [''Atlantis'', ''Keskusta, Helsinki''] []
     = (''[[64,6,'' @ [CHR 0x22] @ ''Keskusta,+Helsinki'' @ [CHR 0x22] @ ''],[1234,4,''
          @ [CHR 0x22] @ ''Keskusta,+Helsinki'' @ [CHR 0x22] @ '']]'',
        [LocationGet ''Atlantis'', LocationGet ''Keskusta, Helsinki''])"
proof -
  have i: "show_int 64 = ''64''" "show_int 6 = ''6''" "show_int 1234 = ''1234''"
    "show_int 4 = ''4''"
    by (simp_all add: show_int_def show_nat_step show_nat_digit digit_char_numerals)
  have a: "location_api two_matches ''Atlantis'' = []"
    "location_api two_matches ''Keskusta, Helsinki''
       = [\<lparr>cardId = 64, cardType = 6\<rparr>, \<lparr>cardId = 1234, cardType = 4\<rparr>]"
    by (simp_all add: two_matches_def)
  from location_token [of two_matches "[''Atlantis'', ''Keskusta, Helsinki'']" "[]"]
  have "fst (location two_matches [''Atlantis'', ''Keskusta, Helsinki''] [])
      = ''[[64,6,'' @ [CHR 0x22] @ ''Keskusta,+Helsinki'' @ [CHR 0x22] @ ''],[1234,4,''
          @ [CHR 0x22] @ ''Keskusta,+Helsinki'' @ [CHR 0x22] @ '']]''"
    and "snd (location two_matches [''Atlantis'', ''Keskusta, Helsinki''] [])
      = [LocationGet ''Atlantis'', LocationGet ''Keskusta, Helsinki'']"
    by (simp_all add: a i)
  then show ?thesis by (simp add: prod_eq_iff)
qed

section \<open>Properties of the entry normalizer\<close>

lemma dict_get_update:
  "dict_get (AList.update k v d) k' dflt = (if k' = k then v else dict_get d k' dflt)"
  by (simp add: dict_get_def update_conv')

lemma dict_get_delete:
  "dict_get (AList.delete k d) k' dflt = (if k' = k then dflt else dict_get d k' dflt)"
  by (simp add: dict_get_def delete_conv')

lemma entry_fields_Inr:
  assumes "entry_fields entry data0 = Inr data"
  obtains s brand nm coordinates pc pb where
    "dict_get data0 ''description'' (PStr []) = PStr s"
    "dict_get entry ''brand'' (PDict [(''name'', PNone)]) = PDict brand"
    "map_of brand ''name'' = Some nm"
    "dict_get entry ''coordinates'' (PDict []) = PDict coordinates"
    "convert_ts (dict_get entry ''priceChanged'' PNone) = Inr pc"
    "convert_ts (dict_get entry ''published'' PNone) = Inr pb"
    "data = AList.update ''published'' pb (AList.update ''price_changed'' pc
        (AList.update ''latitude'' (dict_get coordinates ''latitude'' PNone)
        (AList.update ''longitude'' (dict_get coordinates ''longitude'' PNone)
        (AList.update ''brand_name'' nm
        (AList.update ''room_configuration'' (dict_get entry ''roomConfiguration'' PNone)
        (AList.update ''building_type'' (dict_get data0 ''buildingType'' PNone)
        (AList.delete ''buildingType''
        (AList.update ''description'' (PStr (filter (\<lambda>c. c \<noteq> CHR 0x0A) s))
        (AList.delete ''description'' data0)))))))))"
proof -
  from assms obtain s where s: "dict_get data0 ''description'' (PStr []) = PStr s"
    by (cases "dict_get data0 ''description'' (PStr [])")
      (simp_all add: entry_fields_def dict_pop_def)
  from assms s obtain brand where b: "dict_get entry ''brand'' (PDict [(''name'', PNone)]) = PDict brand"
    by (cases "dict_get entry ''brand'' (PDict [(''name'', PNone)])")
      (simp_all add: entry_fields_def dict_pop_def Let_def)
  from assms s b obtain nm where nm: "map_of brand ''name'' = Some nm"
    by (cases "map_of brand ''name''") (simp_all add: entry_fields_def dict_pop_def Let_def)
  from assms s b nm obtain coordinates where c: "dict_get entry ''coordinates'' (PDict []) = PDict coordinates"
    by (cases "dict_get entry ''coordinates'' (PDict [])")
      (simp_all add: entry_fields_def dict_pop_def Let_def)
  from assms s b nm c obtain pc where pc: "convert_ts (dict_get entry ''priceChanged'' PNone) = Inr pc"
    by (cases "convert_ts (dict_get entry ''priceChanged'' PNone)")
      (simp_all add: entry_fields_def dict_pop_def Let_def)
  from assms s b nm c pc obtain pb where pb: "convert_ts (dict_get entry ''published'' PNone) = Inr pb"
    by (cases "convert_ts (dict_get entry ''published'' PNone)")
      (simp_all add: entry_fields_def dict_pop_def Let_def)
  from assms s b nm c pc pb have "data = AList.update ''published'' pb (AList.update ''price_changed'' pc
        (AList.update ''latitude'' (dict_get coordinates ''latitude'' PNone)
        (AList.update ''longitude'' (dict_get coordinates ''longitude'' PNone)
        (AList.update ''brand_name'' nm
        (AList.update ''room_configuration'' (dict_get entry ''roomConfiguration'' PNone)
        (AList.update ''building_type'' (dict_get data0 ''buildingType'' PNone)
        (AList.delete ''buildingType''
        (AList.update ''description'' (PStr (filter (\<lambda>c. c \<noteq> CHR 0x0A) s))
        (AList.delete ''description'' data0)))))))))"
    by (simp add: entry_fields_def dict_pop_def Let_def dict_get_update dict_get_delete)
  with s b nm c pc pb show ?thesis by (rule that)
qed

lemma HouseEntry_init_Inr:
  assumes "HouseEntry_init data = Inr h"
  shows "dataclass_asdict h = map (\<lambda>k. (k, dict_get data k PNone)) dataclass_fields"
    and "set (map fst data) = set dataclass_fields"
proof -
  from assms have g: "list_all (\<lambda>k. k \<in> set dataclass_fields) (map fst data)"
      "list_all (\<lambda>k. k \<in> set (map fst data)) dataclass_fields"
    and h: "h = \<lparr>id' = dict_get data ''id'' PNone,
                url = dict_get data ''url'' PNone,
                description = dict_get data ''description'' PNone,
                rooms = dict_get data ''rooms'' PNone,
                room_configuration = dict_get data ''room_configuration'' PNone,
                price = dict_get data ''price'' PNone,
                published = dict_get data ''published'' PNone,
                size' = dict_get data ''size'' PNone,
                address = dict_get data ''address'' PNone,
                district = dict_get data ''district'' PNone,
                city = dict_get data ''city'' PNone,
                country = dict_get data ''country'' PNone,
                year = dict_get data ''year'' PNone,
                building_type = dict_get data ''building_type'' PNone,
                longitude = dict_get data ''longitude'' PNone,
                latitude = dict_get data ''latitude'' PNone,
                brand_name = dict_get data ''brand_name'' PNone,
                price_changed = dict_get data ''price_changed'' PNone,
                visits = dict_get data ''visits'' PNone,
                visits_weekly = dict_get data ''visits_weekly'' PNone\<rparr>"
    unfolding HouseEntry_init_def by (simp_all split: if_splits)
  show "dataclass_asdict h = map (\<lambda>k. (k, dict_get data k PNone)) dataclass_fields"
    unfolding h dataclass_asdict_def dataclass_fields_def by simp
  from g show "set (map fst data) = set dataclass_fields"
    unfolding list_all_iff by blast
qed


lemma HouseEntry_init_fields:
  assumes "HouseEntry_init data = Inr h"
  shows "room_configuration h = dict_get data ''room_configuration'' PNone"
    "published h = dict_get data ''published'' PNone"
    "longitude h = dict_get data ''longitude'' PNone"
    "latitude h = dict_get data ''latitude'' PNone"
    "brand_name h = dict_get data ''brand_name'' PNone"
    "price_changed h = dict_get data ''price_changed'' PNone"
  using assms unfolding HouseEntry_init_def by (auto split: if_splits)

lemma entry_builder_Inr:
  assumes "entry_builder entry = Inr h"
  obtains data0 data brand coordinates where
    "flat_copy entry = Inr data0" "entry_fields entry data0 = Inr data"
    "HouseEntry_init data = Inr h"
    "dict_get entry ''brand'' (PDict [(''name'', PNone)]) = PDict brand"
    "map_of brand ''name'' = Some (brand_name h)"
    "dict_get entry ''coordinates'' (PDict []) = PDict coordinates"
    "longitude h = dict_get coordinates ''longitude'' PNone"
    "latitude h = dict_get coordinates ''latitude'' PNone"
    "convert_ts (dict_get entry ''priceChanged'' PNone) = Inr (price_changed h)"
    "convert_ts (dict_get entry ''published'' PNone) = Inr (published h)"
    "room_configuration h = dict_get entry ''roomConfiguration'' PNone"
proof -
  from assms obtain data where d: "entry_data entry = Inr data" and h: "HouseEntry_init data = Inr h"
    by (auto simp: entry_builder_def split: sum.splits if_splits)
  from d obtain data0 where d0: "flat_copy entry = Inr data0" and f: "entry_fields entry data0 = Inr data"
    by (auto simp: entry_data_def split: sum.splits)
  from f obtain s brand nm coordinates pc pb where
    b: "dict_get entry ''brand'' (PDict [(''name'', PNone)]) = PDict brand"
      "map_of brand ''name'' = Some nm"
    and c: "dict_get entry ''coordinates'' (PDict []) = PDict coordinates"
    and t: "convert_ts (dict_get entry ''priceChanged'' PNone) = Inr pc"
      "convert_ts (dict_get entry ''published'' PNone) = Inr pb"
    and data: "data = AList.update ''published'' pb (AList.update ''price_changed'' pc
        (AList.update ''latitude'' (dict_get coordinates ''latitude'' PNone)
        (AList.update ''longitude'' (dict_get coordinates ''longitude'' PNone)
        (AList.update ''brand_name'' nm
        (AList.update ''room_configuration'' (dict_get entry ''roomConfiguration'' PNone)
        (AList.update ''building_type'' (dict_get data0 ''buildingType'' PNone)
        (AList.delete ''buildingType''
        (AList.update ''description'' (PStr (filter (\<lambda>c. c \<noteq> CHR 0x0A) s))
        (AList.delete ''description'' data0)))))))))"
    by (rule entry_fields_Inr)
  have v: "brand_name h = nm" "longitude h = dict_get coordinates ''longitude'' PNone"
    "latitude h = dict_get coordinates ''latitude'' PNone" "price_changed h = pc"
    "published h = pb" "room_configuration h = dict_get entry ''roomConfiguration'' PNone"
    unfolding HouseEntry_init_fields [OF h] data by (simp_all add: dict_get_update)
  show ?thesis
    using d0 f h b c t v that by simp
qed


lemmas entry_eval =
  entry_builder_def entry_data_def flat_copy_def nonstring_keys_def entry_fields_def
  dict_get_def dict_pop_def dict_update_def dataclass_fields_def HouseEntry_init_def
  listing_fields_def

lemma plain_entry_record:
  "entry_builder plain_entry =
     Inr \<lparr>id' = PInt 42, url = PStr ''/myytavat-asunnot/helsinki/42'', description = PStr [],
          rooms = PInt 2, room_configuration = PNone, price = PInt 250000, published = PNone,
          size' = PInt 54, address = PStr ''Katu 1'', district = PStr ''Kallio'',
          city = PStr ''Helsinki'', country = PStr ''Suomi'', year = PInt 1990,
          building_type = PNone, longitude = PNone, latitude = PNone, brand_name = PNone,
          price_changed = PNone, visits = PInt 10, visits_weekly = PInt 3\<rparr>"
  by (simp add: entry_eval plain_entry_def convert_ts_def)




lemma scenario_convert:
  "convert_ts (PStr ''2021-05-01T10:00:00Z'') = Inr (PDatetime scenario_instant)"
  by (simp add: convert_ts_def strptime_def strptime_match_def field_def lit_def lit_T_def
      lit_Z_def pat_Y_def is_digit_def in_range_def py_int_def digits_val_def digit_val_def
      valid_datetime_def days_in_month_def is_leap_def scenario_instant_def)

lemma convert_ts_None: "convert_ts PNone = Inr PNone"
  by (simp add: convert_ts_def)


text \<open>
  Claim C5, as amended. For the raw entry of the scenario the normalizer computes the
  attributes \<open>id = 42\<close>, \<open>description = "Niceflat"\<close>, \<open>year = 1990\<close>,
  \<open>longitude = 24.9\<close>, \<open>latitude = 60.2\<close>, \<open>published\<close> the instant
  \<open>2021-05-01T10:00:00Z\<close>, and \<open>None\<close> for \<open>building_type\<close>, \<open>room_configuration\<close>,
  \<open>brand_name\<close> and \<open>price_changed\<close>; the construction of the record then fails
  with \<open>TypeError\<close>, since \<open>url\<close>, \<open>rooms\<close>, \<open>price\<close>, \<open>size\<close>, \<open>address\<close>,
  \<open>district\<close>, \<open>city\<close>, \<open>country\<close>, \<open>visits\<close> and \<open>visits_weekly\<close> have no
  default. When the raw entry also carries these ten fields, the record is built
  with the values above and the ten as given.
\<close>

theorem scenario_normalization:
  "entry_data scenario_entry =
     Inr [(''id'', PInt 42), (''published'', PDatetime scenario_instant), (''year'', PInt 1990),
          (''description'', PStr ''Niceflat''), (''building_type'', PNone),
          (''room_configuration'', PNone), (''brand_name'', PNone),
          (''longitude'', PFloat 24.9), (''latitude'', PFloat 60.2), (''price_changed'', PNone)]
 \<and> entry_builder scenario_entry = Inl TypeError
 \<and> entry_builder
      (scenario_entry @
        [(''url'', u), (''rooms'', r), (''price'', p), (''size'', s), (''address'', a),
         (''district'', d), (''city'', c), (''country'', co), (''visits'', v),
         (''visits_weekly'', w)])
     = Inr \<lparr>id' = PInt 42, url = u, description = PStr ''Niceflat'', rooms = r,
            room_configuration = PNone, price = p, published = PDatetime scenario_instant,
            size' = s, address = a, district = d, city = c, country = co, year = PInt 1990,
            building_type = PNone, longitude = PFloat 24.9, latitude = PFloat 60.2,
            brand_name = PNone, price_changed = PNone, visits = v, visits_weekly = w\<rparr>"
  by (simp add: entry_eval scenario_entry_def scenario_convert convert_ts_None Let_def)

text \<open>
  The claim as stated fails: the scenario's entry yields no record, the attributes it
  leaves out are not defaulted.
\<close>

theorem scenario_counterexample: "entry_builder scenario_entry = Inl TypeError"
  by (simp add: entry_eval scenario_entry_def scenario_convert convert_ts_None Let_def)

lemma map_of_dict_update:
  "distinct (map fst b) \<Longrightarrow> map_of (dict_update d b) = map_of d ++ map_of b"
proof (induction b arbitrary: d)
  case Nil
  then show ?case by (simp add: dict_update_def)
next
  case (Cons p b)
  obtain k v where p: "p = (k, v)" by (cases p)
  from Cons.prems have k: "k \<notin> fst ` set b" and db: "distinct (map fst b)"
    by (simp_all add: p)
  have "map_of (dict_update d (p # b)) = map_of (dict_update (AList.update k v d) b)"
    by (simp add: dict_update_def p)
  also have "\<dots> = (map_of d)(k \<mapsto> v) ++ map_of b"
    using Cons.IH [OF db, of "AList.update k v d"] by (simp only: update_conv')
  also have "\<dots> = map_of d ++ map_of (p # b)"
  proof
    fix x
    from k have "map_of b k = None" by (simp add: map_of_eq_None_iff)
    then show "((map_of d)(k \<mapsto> v) ++ map_of b) x = (map_of d ++ map_of (p # b)) x"
      by (auto simp: p map_add_def split: option.splits)
  qed
  finally show ?case .
qed

lemma map_of_filter_keys:
  "map_of (filter (\<lambda>(k, v). k \<in> S) e) k = (if k \<in> S then map_of e k else None)"
  by (induction e) auto


lemma flat_copy_lookup:
  assumes "dict_get entry ''buildingData'' (PDict []) = PDict b" "distinct (map fst b)"
  shows "\<exists>data. flat_copy entry = Inr data
           \<and> (\<forall>k. map_of data k =
                 (case map_of b k of
                    Some v \<Rightarrow> Some v
                  | None \<Rightarrow> if k \<in> set dataclass_fields then map_of entry k else None))"
proof -
  let ?data = "dict_update (filter (\<lambda>(k, v). k \<in> set dataclass_fields) entry) b"
  have "flat_copy entry = Inr ?data"
    by (simp add: flat_copy_def assms(1))
  moreover have "map_of ?data k =
      (case map_of b k of
         Some v \<Rightarrow> Some v
       | None \<Rightarrow> if k \<in> set dataclass_fields then map_of entry k else None)" for k
    unfolding map_of_dict_update [OF assms(2)] map_add_def map_of_filter_keys
    by (simp split: option.splits)
  ultimately show ?thesis by blast
qed


lemma copied_field_lookup:
  assumes "entry_builder entry = Inr h" "flat_copy entry = Inr data0" "k \<in> set copied_fields"
  shows "map_of (dataclass_asdict h) k = Some (dict_get data0 k PNone)"
proof -
  from assms(1) obtain data0' data where
    d0: "flat_copy entry = Inr data0'" and f: "entry_fields entry data0' = Inr data"
    and h: "HouseEntry_init data = Inr h"
    by (rule entry_builder_Inr)
  from d0 assms(2) have [simp]: "data0' = data0" by simp
  from f obtain s brand nm coordinates pc pb where
    data: "data = AList.update ''published'' pb (AList.update ''price_changed'' pc
        (AList.update ''latitude'' (dict_get coordinates ''latitude'' PNone)
        (AList.update ''longitude'' (dict_get coordinates ''longitude'' PNone)
        (AList.update ''brand_name'' nm
        (AList.update ''room_configuration'' (dict_get entry ''roomConfiguration'' PNone)
        (AList.update ''building_type'' (dict_get data0 ''buildingType'' PNone)
        (AList.delete ''buildingType''
        (AList.update ''description'' (PStr (filter (\<lambda>c. c \<noteq> CHR 0x0A) s))
        (AList.delete ''description'' data0)))))))))"
    by (rule entry_fields_Inr) simp
  from assms(3) have ne: "k \<noteq> ''published''" "k \<noteq> ''price_changed''" "k \<noteq> ''latitude''"
    "k \<noteq> ''longitude''" "k \<noteq> ''brand_name''" "k \<noteq> ''room_configuration''"
    "k \<noteq> ''building_type''" "k \<noteq> ''buildingType''" "k \<noteq> ''description''"
    by (auto simp: copied_fields_def)
  have "dict_get data k PNone = dict_get data0 k PNone"
    unfolding data by (simp only: dict_get_update dict_get_delete ne if_False)
  moreover from assms(3) have "k \<in> set dataclass_fields"
    by (auto simp: copied_fields_def dataclass_fields_def)
  ultimately show ?thesis
    unfolding HouseEntry_init_Inr(1) [OF h]
    by (simp add: map_of_map_restrict)
qed



lemma map_of_update_other: "k \<noteq> k' \<Longrightarrow> map_of (AList.update k' v d) k = map_of d k"
  by (simp add: update_conv')

lemma map_of_delete_other: "k \<noteq> k' \<Longrightarrow> map_of (AList.delete k' d) k = map_of d k"
  by (simp add: delete_conv')

lemma extra_key_fails:
  assumes "entry_fields entry data0 = Inr data" "map_of data0 k = Some v"
    and "k \<notin> set dataclass_fields" "k \<noteq> ''buildingType''"
  shows "HouseEntry_init data = Inl TypeError"
proof -
  from assms(1) obtain s brand nm coordinates pc pb where
    data: "data = AList.update ''published'' pb (AList.update ''price_changed'' pc
        (AList.update ''latitude'' (dict_get coordinates ''latitude'' PNone)
        (AList.update ''longitude'' (dict_get coordinates ''longitude'' PNone)
        (AList.update ''brand_name'' nm
        (AList.update ''room_configuration'' (dict_get entry ''roomConfiguration'' PNone)
        (AList.update ''building_type'' (dict_get data0 ''buildingType'' PNone)
        (AList.delete ''buildingType''
        (AList.update ''description'' (PStr (filter (\<lambda>c. c \<noteq> CHR 0x0A) s))
        (AList.delete ''description'' data0)))))))))"
    by (rule entry_fields_Inr)
  from assms(3) have ne: "k \<noteq> ''published''" "k \<noteq> ''price_changed''" "k \<noteq> ''latitude''"
    "k \<noteq> ''longitude''" "k \<noteq> ''brand_name''" "k \<noteq> ''room_configuration''"
    "k \<noteq> ''building_type''" "k \<noteq> ''description''"
    by (auto simp: dataclass_fields_def)
  have "map_of data k = map_of data0 k"
    unfolding data
    by (simp only: map_of_update_other [OF ne(1)] map_of_update_other [OF ne(2)]
        map_of_update_other [OF ne(3)] map_of_update_other [OF ne(4)]
        map_of_update_other [OF ne(5)] map_of_update_other [OF ne(6)]
        map_of_update_other [OF ne(7)] map_of_update_other [OF ne(8)]
        map_of_delete_other [OF ne(8)] map_of_delete_other [OF assms(4)])
  with assms(2) have "map_of data k = Some v" by simp
  then have "(k, v) \<in> set data" by (rule map_of_SomeD)
  then have "k \<in> set (map fst data)" by force
  with assms(3) have "\<not> list_all (\<lambda>k. k \<in> set dataclass_fields) (map fst data)"
    by (auto simp: list_all_iff)
  then show ?thesis by (simp add: HouseEntry_init_def)
qed

text \<open>
  Claim C6, as amended. A top-level field is copied only if its name is an attribute of
  the record. The sub-fields of a \<open>buildingData\<close> object are merged in all of them,
  whatever their names, after the copy, so that on a shared name the \<open>buildingData\<close>
  value replaces the top-level one in the merged dictionary. A sub-field whose name
  is no attribute, other than \<open>buildingType\<close>, makes the construction of the record
  fail (\<open>TypeError\<close>). In a record that normalization yields, the \<open>buildingData\<close>
  value holds for every attribute that is not assigned afterwards (\<open>copied_fields\<close>);
  \<open>room_configuration\<close>, \<open>brand_name\<close>, \<open>longitude\<close>, \<open>latitude\<close>,
  \<open>price_changed\<close> and \<open>published\<close> are assigned from the top-level entry
  (\<open>roomConfiguration\<close>, \<open>brand\<close>, \<open>coordinates\<close>, \<open>priceChanged\<close>, \<open>published\<close>).
\<close>

theorem building_data_merge:
  assumes "dict_get entry ''buildingData'' (PDict []) = PDict b" "distinct (map fst b)"
  shows "\<exists>data. flat_copy entry = Inr data
           \<and> (\<forall>k. map_of data k =
                 (case map_of b k of
                    Some v \<Rightarrow> Some v
                  | None \<Rightarrow> if k \<in> set dataclass_fields then map_of entry k else None))
           \<and> (\<forall>h k v. entry_builder entry = Inr h \<longrightarrow> k \<in> set copied_fields
                 \<longrightarrow> map_of b k = Some v \<longrightarrow> map_of (dataclass_asdict h) k = Some v)
           \<and> (\<forall>k v. map_of b k = Some v \<longrightarrow> k \<notin> set dataclass_fields
                 \<longrightarrow> k \<noteq> ''buildingType''
                 \<longrightarrow> (\<forall>d. entry_data entry = Inr d \<longrightarrow> HouseEntry_init d = Inl TypeError)
                   \<and> (\<forall>h. entry_builder entry \<noteq> Inr h))
           \<and> (\<forall>h. entry_builder entry = Inr h \<longrightarrow>
                 room_configuration h = dict_get entry ''roomConfiguration'' PNone
               \<and> (\<exists>brand. dict_get entry ''brand'' (PDict [(''name'', PNone)]) = PDict brand
                     \<and> map_of brand ''name'' = Some (brand_name h))
               \<and> (\<exists>coordinates.
                     dict_get entry ''coordinates'' (PDict []) = PDict coordinates
                     \<and> longitude h = dict_get coordinates ''longitude'' PNone
                     \<and> latitude h = dict_get coordinates ''latitude'' PNone)
               \<and> convert_ts (dict_get entry ''priceChanged'' PNone) = Inr (price_changed h)
               \<and> convert_ts (dict_get entry ''published'' PNone) = Inr (published h))"
proof -
  from flat_copy_lookup [OF assms] obtain data where
    d: "flat_copy entry = Inr data"
    and l: "\<And>k. map_of data k =
                 (case map_of b k of
                    Some v \<Rightarrow> Some v
                  | None \<Rightarrow> if k \<in> set dataclass_fields then map_of entry k else None)"
    by blast
  have c: "map_of (dataclass_asdict h) k = Some v"
    if "entry_builder entry = Inr h" "k \<in> set copied_fields" "map_of b k = Some v" for h k v
    using copied_field_lookup [OF that(1) d that(2)] l [of k] that(3)
    by (simp add: dict_get_def)
  have x: "(\<forall>d. entry_data entry = Inr d \<longrightarrow> HouseEntry_init d = Inl TypeError)
         \<and> (\<forall>h. entry_builder entry \<noteq> Inr h)"
    if "map_of b k = Some v" "k \<notin> set dataclass_fields" "k \<noteq> ''buildingType''" for k v
  proof -
    from l [of k] that(1) have m: "map_of data k = Some v" by simp
    have i: "HouseEntry_init dd = Inl TypeError" if "entry_data entry = Inr dd" for dd
    proof -
      from that d have "entry_fields entry data = Inr dd" by (simp add: entry_data_def)
      from this m \<open>k \<notin> set dataclass_fields\<close> \<open>k \<noteq> ''buildingType''\<close>
      show ?thesis by (rule extra_key_fails)
    qed
    have "entry_builder entry \<noteq> Inr h" for h
      using i by (auto simp: entry_builder_def split: sum.splits if_splits)
    with i show ?thesis by blast
  qed
  have t: "room_configuration h = dict_get entry ''roomConfiguration'' PNone
         \<and> (\<exists>brand. dict_get entry ''brand'' (PDict [(''name'', PNone)]) = PDict brand
               \<and> map_of brand ''name'' = Some (brand_name h))
         \<and> (\<exists>coordinates.
               dict_get entry ''coordinates'' (PDict []) = PDict coordinates
               \<and> longitude h = dict_get coordinates ''longitude'' PNone
               \<and> latitude h = dict_get coordinates ''latitude'' PNone)
         \<and> convert_ts (dict_get entry ''priceChanged'' PNone) = Inr (price_changed h)
         \<and> convert_ts (dict_get entry ''published'' PNone) = Inr (published h)"
    if "entry_builder entry = Inr h" for h
    using that by (rule entry_builder_Inr) blast
  from d l c x t show ?thesis by blast
qed

lemma overlap_entry_record:
  "entry_builder overlap_entry =
     Inr \<lparr>id' = PInt 42, url = PStr ''/myytavat-asunnot/helsinki/42'', description = PStr [],
          rooms = PInt 3, room_configuration = PNone, price = PInt 250000, published = PNone,
          size' = PInt 54, address = PStr ''Katu 1'', district = PStr ''Kallio'',
          city = PStr ''Helsinki'', country = PStr ''Suomi'', year = PInt 1990,
          building_type = PNone, longitude = PNone, latitude = PNone, brand_name = PNone,
          price_changed = PNone, visits = PInt 10, visits_weekly = PInt 3\<rparr>"
  by (simp add: entry_eval overlap_entry_def convert_ts_None Let_def)

theorem building_data_merge_witness:
  "dict_get overlap_entry ''buildingData'' (PDict [])
     = PDict [(''year'', PInt 1990), (''rooms'', PInt 3)]
 \<and> map_of overlap_entry ''rooms'' = Some (PInt 2)
 \<and> entry_builder overlap_entry =
     Inr \<lparr>id' = PInt 42, url = PStr ''/myytavat-asunnot/helsinki/42'', description = PStr [],
          rooms = PInt 3, room_configuration = PNone, price = PInt 250000, published = PNone,
          size' = PInt 54, address = PStr ''Katu 1'', district = PStr ''Kallio'',
          city = PStr ''Helsinki'', country = PStr ''Suomi'', year = PInt 1990,
          building_type = PNone, longitude = PNone, latitude = PNone, brand_name = PNone,
          price_changed = PNone, visits = PInt 10, visits_weekly = PInt 3\<rparr>
 \<and> map_of (dataclass_asdict
       \<lparr>id' = PInt 42, url = PStr ''/myytavat-asunnot/helsinki/42'', description = PStr [],
        rooms = PInt 3, room_configuration = PNone, price = PInt 250000, published = PNone,
        size' = PInt 54, address = PStr ''Katu 1'', district = PStr ''Kallio'',
        city = PStr ''Helsinki'', country = PStr ''Suomi'', year = PInt 1990,
        building_type = PNone, longitude = PNone, latitude = PNone, brand_name = PNone,
        price_changed = PNone, visits = PInt 10, visits_weekly = PInt 3\<rparr>) ''rooms''
     = Some (PInt 3)
 \<and> dict_get extra_entry ''buildingData'' (PDict [])
     = PDict [(''year'', PInt 1990), (''floors'', PInt 5)]
 \<and> ''floors'' \<notin> set dataclass_fields
 \<and> entry_builder extra_entry \<noteq> Inr plain_record"
proof -
  have b: "dict_get overlap_entry ''buildingData'' (PDict [])
      = PDict [(''year'', PInt 1990), (''rooms'', PInt 3)]"
    by (simp add: overlap_entry_def dict_get_def)
  have d: "distinct (map fst [(''year'', PInt 1990), (''rooms'', PInt 3)])" by simp
  have t: "map_of overlap_entry ''rooms'' = Some (PInt 2)"
    by (simp add: overlap_entry_def listing_fields_def)
  have c: "''rooms'' \<in> set copied_fields" by (simp add: copied_fields_def)
  have m: "map_of [(''year'', PInt 1990), (''rooms'', PInt 3)] ''rooms'' = Some (PInt 3)" by simp
  have b2: "dict_get extra_entry ''buildingData'' (PDict [])
      = PDict [(''year'', PInt 1990), (''floors'', PInt 5)]"
    by (simp add: extra_entry_def dict_get_def)
  have d2: "distinct (map fst [(''year'', PInt 1990), (''floors'', PInt 5)])" by simp
  have m2: "map_of [(''year'', PInt 1990), (''floors'', PInt 5)] ''floors'' = Some (PInt 5)"
    by simp
  have f2: "''floors'' \<notin> set dataclass_fields" "''floors'' \<noteq> ''buildingType''"
    by (simp_all add: dataclass_fields_def)
  from building_data_merge [OF b2 d2] m2 f2
  have x: "entry_builder extra_entry \<noteq> Inr plain_record" by blast
  from building_data_merge [OF b d] overlap_entry_record c m
  have "map_of (dataclass_asdict
       \<lparr>id' = PInt 42, url = PStr ''/myytavat-asunnot/helsinki/42'', description = PStr [],
        rooms = PInt 3, room_configuration = PNone, price = PInt 250000, published = PNone,
        size' = PInt 54, address = PStr ''Katu 1'', district = PStr ''Kallio'',
        city = PStr ''Helsinki'', country = PStr ''Suomi'', year = PInt 1990,
        building_type = PNone, longitude = PNone, latitude = PNone, brand_name = PNone,
        price_changed = PNone, visits = PInt 10, visits_weekly = PInt 3\<rparr>) ''rooms''
     = Some (PInt 3)"
    by blast
  with overlap_entry_record b t b2 f2(1) x show ?thesis by blast
qed

text \<open>
  The claim as stated fails. A \<open>buildingData\<close> sub-field whose name is no attribute
  (\<open>floors\<close>) is merged all the same, and the construction of the record then
  fails; and on the shared name \<open>published\<close> the record holds the top-level value,
  not the one of \<open>buildingData\<close>.
\<close>

theorem building_data_counterexample:
  "''floors'' \<notin> set dataclass_fields
 \<and> flat_copy extra_entry
     = Inr ([(''id'', PInt 42)] @ listing_fields @ [(''year'', PInt 1990), (''floors'', PInt 5)])
 \<and> entry_builder extra_entry = Inl TypeError
 \<and> map_of republished_entry ''published'' = Some (PStr ''2021-05-01T10:00:00Z'')
 \<and> dict_get republished_entry ''buildingData'' (PDict [])
     = PDict [(''year'', PInt 1990), (''published'', PStr ''2000-01-01T00:00:00Z'')]
 \<and> entry_builder republished_entry =
     Inr \<lparr>id' = PInt 42, url = PStr ''/myytavat-asunnot/helsinki/42'', description = PStr [],
          rooms = PInt 2, room_configuration = PNone, price = PInt 250000,
          published = PDatetime scenario_instant,
          size' = PInt 54, address = PStr ''Katu 1'', district = PStr ''Kallio'',
          city = PStr ''Helsinki'', country = PStr ''Suomi'', year = PInt 1990,
          building_type = PNone, longitude = PNone, latitude = PNone, brand_name = PNone,
          price_changed = PNone, visits = PInt 10, visits_weekly = PInt 3\<rparr>"
  by (simp add: entry_eval extra_entry_def republished_entry_def convert_ts_None Let_def
      scenario_convert)

section \<open>Properties of the pagination engine\<close>

lemma page_requests_append: "page_requests (xs @ ys) = page_requests xs @ page_requests ys"
  by (induction xs rule: page_requests.induct) simp_all

lemma page_requests_locations: "page_requests (map LocationGet locs) = []"
  by (induction locs) simp_all

lemma params_builder_Inr:
  assumes "params_builder srv a j reqs0 = (Inr ps, reqs1)"
  shows "\<exists>locs. \<forall>i reqs. \<exists>ps'.
           params_builder srv a i reqs = (Inr ps', reqs @ map LocationGet locs)
         \<and> page_url srv a i = BASE @ ''/api/cards'' @ ps'"
proof -
  from assms obtain hts where h: "house_type a = Some hts"
    by (cases "house_type a") (simp_all add: params_builder_def)
  from assms h obtain codes where c: "expand_house_types hts = Inr codes"
    by (cases "expand_house_types hts") (simp_all add: params_builder_def)
  from assms h c obtain locs where l: "locations a = Some locs"
    by (cases "locations a") (simp_all add: params_builder_def)
  have "\<exists>ps'. params_builder srv a i reqs = (Inr ps', reqs @ map LocationGet locs)
                  \<and> page_url srv a i = BASE @ ''/api/cards'' @ ps'" for i reqs
    by (simp add: params_builder_def page_url_def h c l location_eq)
  then show ?thesis by blast
qed

lemma execute_Inr:
  assumes "execute srv a j reqs0 = (Inr pg, reqs1)"
  shows "\<exists>reqs'. execute srv a i reqs = (Inr (cards_api srv (page_url srv a i)), reqs')
           \<and> page_requests reqs' = page_requests reqs @ [page_url srv a i]"
proof -
  from assms obtain ps r where "params_builder srv a j reqs0 = (Inr ps, r)"
    by (auto simp: execute_def split: prod.splits sum.splits)
  from params_builder_Inr [OF this] obtain locs ps' where
    "params_builder srv a i reqs = (Inr ps', reqs @ map LocationGet locs)"
    "page_url srv a i = BASE @ ''/api/cards'' @ ps'"
    by blast
  then show ?thesis
    by (simp add: execute_def Let_def page_requests_append page_requests_locations)
qed

lemma yield_entries_None:
  "yield_entries cs = (ys, None) \<Longrightarrow> map Inr ys = map entry_builder cs"
  by (induction cs arbitrary: ys) (auto split: sum.splits prod.splits)

lemma fetch_pages_None:
  assumes "fetch_pages srv a offsets reqs = (zs, None, reqs')"
  shows "page_requests reqs' = page_requests reqs @ map (page_url srv a) offsets
       \<and> map Inr zs
           = concat (map (\<lambda>i. map entry_builder (cards (cards_api srv (page_url srv a i)))) offsets)"
  using assms
proof (induction offsets arbitrary: reqs zs)
  case Nil
  then show ?case by simp
next
  case (Cons i offsets)
  from Cons.prems obtain data r1 where e: "execute srv a i reqs = (Inr data, r1)"
    by (auto split: prod.splits sum.splits)
  from execute_Inr [OF e, of i reqs] e
  have data: "data = cards_api srv (page_url srv a i)"
    and r1: "page_requests r1 = page_requests reqs @ [page_url srv a i]"
    by auto
  from Cons.prems e obtain ys where y: "yield_entries (cards data) = (ys, None)"
    by (auto split: prod.splits option.splits)
  from Cons.prems e y obtain zs' where f: "fetch_pages srv a offsets r1 = (zs', None, reqs')"
    and zs: "zs = ys @ zs'"
    by (auto split: prod.splits)
  from Cons.IH [OF f] yield_entries_None [OF y] r1 show ?case
    by (simp add: zs data)
qed

lemma query_None:
  assumes "query srv a reqs = (ys, None, reqs')"
  shows "page_requests reqs' = page_requests reqs
           @ map (page_url srv a) (page_offsets (limit a) (found (cards_api srv (page_url srv a 0))))
       \<and> map Inr ys
           = concat (map (\<lambda>i. map entry_builder (cards (cards_api srv (page_url srv a i))))
               (page_offsets (limit a) (found (cards_api srv (page_url srv a 0)))))"
proof -
  from assms obtain data r1 where e: "execute srv a 0 reqs = (Inr data, r1)"
    by (auto simp: query_def split: prod.splits sum.splits)
  from execute_Inr [OF e, of 0 reqs] e
  have data: "data = cards_api srv (page_url srv a 0)"
    and r1: "page_requests r1 = page_requests reqs @ [page_url srv a 0]"
    by auto
  from assms e obtain ys0 where y: "yield_entries (cards data) = (ys0, None)"
    by (auto simp: query_def split: prod.splits option.splits)
  note y0 = yield_entries_None [OF y]
  show ?thesis
  proof (cases "found data > limit a")
    case False
    with assms e y have "ys = ys0" "reqs' = r1" by (simp_all add: query_def)
    with False y0 r1 show ?thesis by (simp add: page_offsets_def data)
  next
    case True
    with assms e y obtain offsets where o: "py_range (limit a) (found data) (limit a) = Inr offsets"
      by (cases "py_range (limit a) (found data) (limit a)") (simp_all add: query_def)
    with assms e y True obtain zs where f: "fetch_pages srv a offsets r1 = (zs, None, reqs')"
      and ys: "ys = ys0 @ zs"
      by (auto simp: query_def split: prod.splits)
    from fetch_pages_None [OF f] y0 r1 True o show ?thesis
      by (simp add: page_offsets_def data ys)
  qed
qed


lemma ceiling_div_pos:
  fixes F L :: int
  assumes "0 < L"
  shows "\<lceil>real_of_int F / real_of_int L\<rceil> = (F - 1) div L + 1"
proof (rule ceiling_unique)
  define q where "q = (F - 1) div L"
  define r where "r = (F - 1) mod L"
  have eq: "F - 1 = q * L + r" by (simp add: q_def r_def)
  have r: "0 \<le> r" "r < L" using assms by (simp_all add: r_def)
  have lo: "q * L < F" using eq r by linarith
  have hi: "F \<le> (q + 1) * L" using eq r by (simp add: algebra_simps)
  have L: "0 < real_of_int L" using assms by simp
  from lo have "real_of_int (q * L) < real_of_int F" by (simp only: of_int_less_iff)
  then have "real_of_int q < real_of_int F / real_of_int L"
    using L by (simp add: pos_less_divide_eq)
  then show "real_of_int ((F - 1) div L + 1) - 1 < real_of_int F / real_of_int L"
    by (simp add: q_def)
  from hi have "real_of_int F \<le> real_of_int ((q + 1) * L)" by (simp only: of_int_le_iff)
  then have "real_of_int F / real_of_int L \<le> real_of_int (q + 1)"
    using L by (simp add: pos_divide_le_eq)
  then show "real_of_int F / real_of_int L \<le> real_of_int ((F - 1) div L + 1)"
    by (simp add: q_def)
qed

lemma page_offsets_eq:
  assumes "0 < L"
  shows "page_offsets L F
       = map (\<lambda>k. int k * L) [0..<max 1 (nat \<lceil>real_of_int F / real_of_int L\<rceil>)]"
proof (cases "F > L")
  case False
  then have "(F - 1) div L \<le> (L - 1) div L"
    using assms by (intro zdiv_mono1) simp_all
  moreover have "(L - 1) div L = 0"
    using assms by (simp add: div_pos_pos_trivial)
  ultimately have "(F - 1) div L + 1 \<le> 1" by simp
  then have "max 1 (nat \<lceil>real_of_int F / real_of_int L\<rceil>) = 1"
    by (simp add: ceiling_div_pos [OF assms])
  with False show ?thesis by (simp add: page_offsets_def)
next
  case True
  define m where "m = nat ((F - 1) div L)"
  have "L div L \<le> (F - 1) div L"
    using True assms by (intro zdiv_mono1) simp_all
  then have "1 \<le> (F - 1) div L"
    using assms by simp
  then have n: "max 1 (nat \<lceil>real_of_int F / real_of_int L\<rceil>) = Suc m"
    by (simp add: ceiling_div_pos [OF assms] m_def nat_add_distrib)
  have "page_offsets L F = 0 # map (\<lambda>k. L + int k * L) [0..<m]"
    using True assms by (simp add: page_offsets_def py_range_def m_def)
  also have "\<dots> = map (\<lambda>k. int k * L) [0..<Suc m]"
    by (simp only: map_upt_Suc) (simp add: algebra_simps)
  finally show ?thesis by (simp only: n)
qed


lemma plain_entry_builds: "entry_builder plain_entry = Inr plain_record"
  by (simp add: plain_entry_record plain_record_def)

lemmas url_eval =
  page_url_def params_builder_def unfiltered_args_def location_def kwargs_def
  param_pairs_def render_def opt_int_def opt_ints_def param_map_def show_int_def
  show_nat.simps digit_char_numerals BASE_def

lemma unfiltered_urls:
  "page_url srv unfiltered_args 0 = url_0"
  "page_url srv unfiltered_args 50 = url_50"
  "page_url srv unfiltered_args 100 = url_100"
  by (simp_all add: url_eval url_0_def url_50_def url_100_def)

lemma unfiltered_execute:
  "execute srv unfiltered_args i reqs
     = (Inr (cards_api srv (page_url srv unfiltered_args i)),
        reqs @ [CardsGet (page_url srv unfiltered_args i)])"
  by (simp add: execute_def params_builder_def page_url_def unfiltered_args_def location_def
      Let_def)

lemma limit_unfiltered: "limit unfiltered_args = 50"
  by (simp add: unfiltered_args_def)

lemma growing_run:
  "query growing unfiltered_args [] = ([], None, [CardsGet url_0, CardsGet url_50])"
proof -
  have c: "cards_api growing url_0 = \<lparr>cards = [], found = 100\<rparr>"
    "cards_api growing url_50 = \<lparr>cards = [], found = 200\<rparr>"
    by (simp_all add: growing_def url_0_def url_50_def)
  have r: "py_range 50 100 50 = Inr [50]"
    by (simp add: py_range_def)
  show ?thesis
    by (simp add: query_def unfiltered_execute unfiltered_urls c limit_unfiltered r)
qed

lemma steady_run:
  "query steady unfiltered_args []
     = ([plain_record, plain_record, plain_record], None,
        [CardsGet url_0, CardsGet url_50, CardsGet url_100])"
proof -
  have c: "\<And>u. cards_api steady u = \<lparr>cards = [plain_entry], found = 120\<rparr>"
    by (simp add: steady_def)
  have r: "py_range 50 120 50 = Inr [50, 100]"
    by (simp add: py_range_def upt_rec)
  show ?thesis
    by (simp add: query_def unfiltered_execute unfiltered_urls c limit_unfiltered r
        plain_entry_builds)
qed

lemma no_listings_run:
  "query no_listings unfiltered_args [] = ([], None, [CardsGet url_0])"
proof -
  have c: "\<And>u. cards_api no_listings u = \<lparr>cards = [], found = 0\<rparr>"
    by (simp add: no_listings_def)
  show ?thesis
    by (simp add: query_def unfiltered_execute unfiltered_urls c limit_unfiltered)
qed

lemma ceiling_100_50: "max 1 (nat \<lceil>real_of_int 100 / real_of_int 50\<rceil>) = 2" by simp
lemma ceiling_120_50: "max 1 (nat \<lceil>real_of_int 120 / real_of_int 50\<rceil>) = 3" by simp
lemma ceiling_0_50: "\<lceil>real_of_int 0 / real_of_int 50\<rceil> = 0" by simp

text \<open>
  Claim C2, as amended. In a query that runs to its end, whether further pages are
  fetched, and at which offsets, is decided once, from the \<open>found\<close> value of the
  first page's response: the listing requests are those at offset 0 and at the offsets
  of \<open>range(limit, found, limit)\<close> for that value (for a positive limit, the offsets
  \<open>0, limit, 2 limit, ...\<close> below it, and offset 0 alone when it is not positive). The
  \<open>found\<close> values of later pages are not read.
\<close>

theorem pagination_uses_first_found:
  assumes "query srv a reqs = (ys, None, reqs')"
  shows "page_requests reqs'
       = page_requests reqs
         @ map (page_url srv a)
             (page_offsets (limit a) (found (cards_api srv (page_url srv a 0))))
     \<and> (0 < limit a \<longrightarrow>
          page_offsets (limit a) (found (cards_api srv (page_url srv a 0)))
        = map (\<lambda>k. int k * limit a)
            [0..<max 1 (nat \<lceil>real_of_int (found (cards_api srv (page_url srv a 0)))
                                / real_of_int (limit a)\<rceil>)])"
proof (intro conjI impI)
  from query_None [OF assms] show "page_requests reqs'
       = page_requests reqs
         @ map (page_url srv a)
             (page_offsets (limit a) (found (cards_api srv (page_url srv a 0))))"
    by (rule conjunct1)
next
  assume "0 < limit a"
  then show "page_offsets (limit a) (found (cards_api srv (page_url srv a 0)))
        = map (\<lambda>k. int k * limit a)
            [0..<max 1 (nat \<lceil>real_of_int (found (cards_api srv (page_url srv a 0)))
                                / real_of_int (limit a)\<rceil>)]"
    by (rule page_offsets_eq)
qed


theorem pagination_uses_first_found_witness:
  "query growing unfiltered_args [] = ([], None, [CardsGet url_0, CardsGet url_50])
 \<and> found (cards_api growing url_0) = 100
 \<and> found (cards_api growing url_50) = 200
 \<and> [url_0, url_50] = map (page_url growing unfiltered_args) (map (\<lambda>k. int k * 50) [0..<2])"
proof -
  have f: "found (cards_api growing url_0) = 100" "found (cards_api growing url_50) = 200"
    by (simp_all add: growing_def url_0_def url_50_def)
  have u: "page_url growing unfiltered_args 0 = url_0" by (rule unfiltered_urls)
  have l: "(0::int) < 50" by simp
  note t = pagination_uses_first_found [OF growing_run, unfolded u f limit_unfiltered ceiling_100_50]
  from t l have o: "page_offsets 50 100 = map (\<lambda>k. int k * 50) [0..<2]"
    by blast
  from t have "page_requests [CardsGet url_0, CardsGet url_50]
      = page_requests [] @ map (page_url growing unfiltered_args) (page_offsets 50 100)"
    by blast
  then have "[url_0, url_50]
      = map (page_url growing unfiltered_args) (map (\<lambda>k. int k * 50) [0..<2])"
    unfolding o by (simp only: page_requests.simps append_Nil)
  with growing_run f show ?thesis by blast
qed

text \<open>
  The claim as stated fails. The first page reports 100 listings and the page at
  offset 50 reports 200: the offset plus the page size is below the latest \<open>found\<close>,
  and yet no further page is fetched.
\<close>

theorem latest_found_counterexample:
  "query growing unfiltered_args [] = ([], None, [CardsGet url_0, CardsGet url_50])
 \<and> page_url growing unfiltered_args 50 = url_50
 \<and> found (cards_api growing url_50) = 200
 \<and> 50 + limit unfiltered_args < found (cards_api growing url_50)"
proof -
  have f: "found (cards_api growing url_50) = 200"
    by (simp add: growing_def url_0_def url_50_def)
  have "50 + limit unfiltered_args < found (cards_api growing url_50)"
    unfolding f limit_unfiltered by simp
  with growing_run unfiltered_urls(2) f show ?thesis by blast
qed


text \<open>
  Claim C1, as amended. For a query with a positive page size \<open>L\<close> that runs to its
  end against a provider reporting the same total \<open>F\<close> on every page, exactly
  \<open>max 1 (ceil (F / L))\<close> listing requests are issued, at the offsets
  \<open>0, L, 2 L, ...\<close> in this order (one request when \<open>F = 0\<close>); the records yielded are
  the entries of the fetched pages, normalized, page after page and in the provider's
  order within each page, so that their number is the sum of the lengths of the
  pages' \<open>cards\<close>.
\<close>

theorem pagination_request_count:
  assumes "\<forall>u. found (cards_api srv u) = F" "0 < limit a"
    and "query srv a reqs = (ys, None, reqs')"
  shows "page_requests reqs'
       = page_requests reqs
         @ map (\<lambda>k. page_url srv a (int k * limit a))
             [0..<max 1 (nat \<lceil>real_of_int F / real_of_int (limit a)\<rceil>)]
     \<and> map Inr ys
       = concat (map (\<lambda>k. map entry_builder
                             (cards (cards_api srv (page_url srv a (int k * limit a)))))
                  [0..<max 1 (nat \<lceil>real_of_int F / real_of_int (limit a)\<rceil>)])
     \<and> length ys
       = sum_list (map (\<lambda>k. length (cards (cards_api srv (page_url srv a (int k * limit a)))))
                    [0..<max 1 (nat \<lceil>real_of_int F / real_of_int (limit a)\<rceil>)])"
proof -
  define n where "n = max 1 (nat \<lceil>real_of_int F / real_of_int (limit a)\<rceil>)"
  define pg where "pg = (\<lambda>k. cards (cards_api srv (page_url srv a (int k * limit a))))"
  from assms(1) have f: "found (cards_api srv (page_url srv a 0)) = F" by blast
  have o: "page_offsets (limit a) (found (cards_api srv (page_url srv a 0)))
      = map (\<lambda>k. int k * limit a) [0..<n]"
    unfolding f n_def using assms(2) by (rule page_offsets_eq)
  note q = query_None [OF assms(3), unfolded o]
  from q have r: "page_requests reqs'
       = page_requests reqs @ map (\<lambda>k. page_url srv a (int k * limit a)) [0..<n]"
    by (simp only: map_map comp_def)
  from q have y: "map Inr ys = concat (map (\<lambda>k. map entry_builder (pg k)) [0..<n])"
    by (simp only: map_map comp_def pg_def)
  have "length ys = length (map Inr ys :: (error + HouseEntry) list)"
    by (simp only: length_map)
  also have "\<dots> = sum_list (map (\<lambda>k. length (pg k)) [0..<n])"
    unfolding y by (simp only: length_concat map_map comp_def length_map)
  finally have c: "length ys = sum_list (map (\<lambda>k. length (pg k)) [0..<n])" .
  from r y c show ?thesis
    unfolding n_def pg_def by blast
qed


theorem pagination_request_count_witness:
  "query steady unfiltered_args []
     = ([plain_record, plain_record, plain_record], None,
        [CardsGet url_0, CardsGet url_50, CardsGet url_100])
 \<and> (\<forall>u. found (cards_api steady u) = 120)
 \<and> [url_0, url_50, url_100]
     = map (\<lambda>k. page_url steady unfiltered_args (int k * 50)) [0..<3]
 \<and> length [plain_record, plain_record, plain_record]
     = sum_list (map (\<lambda>k. length (cards (cards_api steady
         (page_url steady unfiltered_args (int k * 50))))) [0..<3])"
proof -
  have f: "\<forall>u. found (cards_api steady u) = 120" by (simp add: steady_def)
  have l: "0 < limit unfiltered_args" by (simp add: limit_unfiltered)
  note t = pagination_request_count [OF f l steady_run, unfolded limit_unfiltered ceiling_120_50]
  from t have "page_requests [CardsGet url_0, CardsGet url_50, CardsGet url_100]
      = page_requests [] @ map (\<lambda>k. page_url steady unfiltered_args (int k * 50)) [0..<3]"
    by blast
  then have r: "[url_0, url_50, url_100]
      = map (\<lambda>k. page_url steady unfiltered_args (int k * 50)) [0..<3]"
    by (simp only: page_requests.simps append_Nil)
  from t have c: "length [plain_record, plain_record, plain_record]
     = sum_list (map (\<lambda>k. length (cards (cards_api steady
         (page_url steady unfiltered_args (int k * 50))))) [0..<3])"
    by blast
  from steady_run f r c show ?thesis by blast
qed

text \<open>
  The claim as stated fails when the provider reports no listing: one page is
  requested, while \<open>ceil (0 / 50) = 0\<close>.
\<close>

theorem page_count_counterexample:
  "query no_listings unfiltered_args [] = ([], None, [CardsGet url_0])
 \<and> found (cards_api no_listings url_0) = 0
 \<and> limit unfiltered_args = 50
 \<and> length (page_requests [CardsGet url_0]) = 1
 \<and> \<lceil>real_of_int 0 / real_of_int 50\<rceil> = 0"
proof -
  have "found (cards_api no_listings url_0) = 0" by (simp add: no_listings_def)
  moreover have "length (page_requests [CardsGet url_0]) = 1" by simp
  ultimately show ?thesis using no_listings_run limit_unfiltered ceiling_0_50 by blast
qed

section \<open>Properties of the sheet wrapper\<close>

lemma insert_row_end: "length rows = n \<Longrightarrow> insert_row r (Suc n) rows = rows @ [r]"
  by (simp add: insert_row_def)

lemma insert_step:
  assumes "SheetWrapper_insert padded w e = Inr w1"
  shows "(py_key (id' e) |\<in>| ids w \<and> w1 = w\<lparr>printed := printed w @ [AlreadyExists (id' e)]\<rparr>)
       \<or> (py_key (id' e) |\<notin>| ids w
          \<and> w1 = \<lparr>sheet = insert_row (map snd (asdict padded e)) (fcard (ids w) + 2) (sheet w),
                   ids = finsert (py_key (id' e)) (ids w),
                   printed = printed w @ [FoundNew e]\<rparr>)"
  using assms
  by (auto simp: SheetWrapper_insert_def Let_def fcard_finsert_disjoint split: if_splits)

text \<open>
  What the code keeps of the wrapper's invariant. After any sequence of \<open>insert\<close> calls the
  id set is the one the sequence started from together with the ids of the entries
  reported as new; these ids are pairwise different and none was in the set at the
  start, so no id gets a row twice. When the sheet holds a header and one row per known
  id, the rows are added at its end, in the order of the calls.
\<close>

lemma insert_all_invariant:
  assumes "insert_all padded w es = Inr w2"
  shows "\<exists>evs. printed w2 = printed w @ evs
           \<and> ids w2 = ids w |\<union>| fset_of_list (map (\<lambda>h. py_key (id' h)) (found_new evs))
           \<and> distinct (map (\<lambda>h. py_key (id' h)) (found_new evs))
           \<and> (\<forall>h\<in>set (found_new evs). py_key (id' h) |\<notin>| ids w)
           \<and> (length (sheet w) = fcard (ids w) + 1 \<longrightarrow>
                sheet w2 = sheet w @ map (\<lambda>h. map snd (asdict padded h)) (found_new evs))"
  using assms
proof (induction es arbitrary: w)
  case Nil
  then show ?case by simp
next
  case (Cons e es)
  from Cons.prems obtain w1 where s: "SheetWrapper_insert padded w e = Inr w1"
    and r: "insert_all padded w1 es = Inr w2"
    by (auto split: sum.splits)
  from Cons.IH [OF r] obtain evs where
    p: "printed w2 = printed w1 @ evs"
    and i: "ids w2 = ids w1 |\<union>| fset_of_list (map (\<lambda>h. py_key (id' h)) (found_new evs))"
    and d: "distinct (map (\<lambda>h. py_key (id' h)) (found_new evs))"
    and n: "\<forall>h\<in>set (found_new evs). py_key (id' h) |\<notin>| ids w1"
    and a: "length (sheet w1) = fcard (ids w1) + 1 \<longrightarrow>
                sheet w2 = sheet w1 @ map (\<lambda>h. map snd (asdict padded h)) (found_new evs)"
    by blast
  from insert_step [OF s] show ?case
  proof (elim disjE conjE)
    assume m: "py_key (id' e) |\<in>| ids w"
      and w1: "w1 = w\<lparr>printed := printed w @ [AlreadyExists (id' e)]\<rparr>"
    show ?thesis
      by (rule exI [of _ "AlreadyExists (id' e) # evs"]) (use p i d n a in \<open>simp add: w1\<close>)
  next
    assume m: "py_key (id' e) |\<notin>| ids w"
      and w1: "w1 = \<lparr>sheet = insert_row (map snd (asdict padded e)) (fcard (ids w) + 2) (sheet w),
                   ids = finsert (py_key (id' e)) (ids w),
                   printed = printed w @ [FoundNew e]\<rparr>"
    have l: "length (sheet w) = fcard (ids w) + 1 \<Longrightarrow>
        sheet w1 = sheet w @ [map snd (asdict padded e)]
      \<and> length (sheet w1) = fcard (ids w1) + 1"
      using m by (simp add: w1 insert_row_end fcard_finsert_disjoint)
    show ?thesis
    proof (rule exI [of _ "FoundNew e # evs"], intro conjI impI)
      show "printed w2 = printed w @ FoundNew e # evs" using p by (simp add: w1)
      show "ids w2
          = ids w |\<union>| fset_of_list (map (\<lambda>h. py_key (id' h)) (found_new (FoundNew e # evs)))"
        using i by (auto simp: w1)
      show "distinct (map (\<lambda>h. py_key (id' h)) (found_new (FoundNew e # evs)))"
        using d n by (auto simp: w1)
      show "\<forall>h\<in>set (found_new (FoundNew e # evs)). py_key (id' h) |\<notin>| ids w"
        using n m by (auto simp: w1)
      assume "length (sheet w) = fcard (ids w) + 1"
      from l [OF this] have s1: "sheet w1 = sheet w @ [map snd (asdict padded e)]"
        and l1: "length (sheet w1) = fcard (ids w1) + 1"
        by blast+
      from a l1
      have "sheet w2 = sheet w1 @ map (\<lambda>h. map snd (asdict padded h)) (found_new evs)"
        by blast
      then show "sheet w2
          = sheet w @ map (\<lambda>h. map snd (asdict padded h)) (found_new (FoundNew e # evs))"
        unfolding s1 by simp
    qed
  qed
qed

lemma plain_record_id: "id' plain_record = PInt 42"
  by (simp add: plain_record_def)

lemma plain_record_row: "map snd (asdict padded plain_record) = plain_row"
  by (simp add: asdict_def dataclass_asdict_def asdict_value_def plain_record_def plain_row_def)

text \<open>
  Claim C10. The claim says that the row of an entry with a new id is appended to the
  sheet, as the docstring of \<open>insert\<close> does (to the end of the sheet). The code
  inserts the row at the index \<open>len(ids) + 1\<close>, which is not the end for a wrapper
  built on a worksheet that holds the header row only: \<open>__init__\<close> finds no record
  and inserts the header once more, and the first new row lands between the two
  header rows.
\<close>

theorem insert_into_header_only_sheet:
  "SheetWrapper_init [header_row] [] = Inr header_only_sheet
 \<and> py_key (id' plain_record) |\<notin>| ids header_only_sheet
 \<and> SheetWrapper_insert padded header_only_sheet plain_record
     = Inr \<lparr>sheet = [header_row, plain_row, header_row], ids = {|PInt 42|},
            printed = [FoundNew plain_record]\<rparr>
 \<and> last [header_row, plain_row, header_row] \<noteq> plain_row"
proof -
  have i: "SheetWrapper_init [header_row] [] = Inr header_only_sheet"
    by (simp add: SheetWrapper_init_def header_only_sheet_def insert_row_def header_row_def)
  have n: "py_key (id' plain_record) |\<notin>| ids header_only_sheet"
    by (simp add: header_only_sheet_def)
  have s: "SheetWrapper_insert padded header_only_sheet plain_record
     = Inr \<lparr>sheet = [header_row, plain_row, header_row], ids = {|PInt 42|},
            printed = [FoundNew plain_record]\<rparr>"
    by (simp add: SheetWrapper_insert_def header_only_sheet_def plain_record_id
        plain_record_row Let_def insert_row_def fcard_finsert_disjoint fcard_fempty)
  have l: "last [header_row, plain_row, header_row] \<noteq> plain_row"
    by (simp add: header_row_def plain_row_def dataclass_fields_def)
  from i n s l show ?thesis by blast
qed

end
